theory Spec2Isabelle
  imports Main
begin

text \<open>
  A model of the write paths of the police records server: the error taxonomy and the
  boundary error handler, login and registration, and the cases service with its
  transactions, together with the merge step of the places and inspections service.
  Asynchronous calls are taken in their order of execution within one request; the
  storage is the tables the services read and write, and every call on it can be
  rejected by the driver.
\<close>

section \<open>JavaScript values and objects\<close>

text \<open>
  The services work on plain JavaScript objects whose fields hold strings, numbers,
  booleans, \<open>null\<close> or \<open>undefined\<close>. An object is a partial map from property names
  to values; reading a property that is not there gives \<open>undefined\<close>.
  A string is the list of its UTF-8 bytes.
\<close>

datatype jsval = Undefined | Null | Str string | Num int | Bool bool

type_synonym jsobj = "string \<rightharpoonup> jsval"

definition jsget :: "jsobj \<Rightarrow> string \<Rightarrow> jsval" where
  "jsget obj k = (case obj k of None \<Rightarrow> Undefined | Some v \<Rightarrow> v)"

fun truthy :: "jsval \<Rightarrow> bool" where
  "truthy Undefined = False"
| "truthy Null = False"
| "truthy (Str s) = (s \<noteq> [])"
| "truthy (Num n) = (n \<noteq> 0)"
| "truthy (Bool b) = b"

definition isNil :: "jsval \<Rightarrow> bool" where
  "isNil v = (v = Null \<or> v = Undefined)"

definition or_null :: "jsval \<Rightarrow> jsval" where
  \<comment> \<open>\<open>v || null\<close>\<close>
  "or_null v = (if truthy v then v else Null)"

definition or_else :: "jsval \<Rightarrow> jsval \<Rightarrow> jsval" where
  \<comment> \<open>\<open>a || b\<close>\<close>
  "or_else a b = (if truthy a then a else b)"

definition nullish :: "jsval \<Rightarrow> jsval \<Rightarrow> jsval" where
  \<comment> \<open>\<open>a ?? b\<close>\<close>
  "nullish a b = (if a = Undefined \<or> a = Null then b else a)"

definition sqlval :: "jsval \<Rightarrow> jsval" where
  \<comment> \<open>a bound parameter: the driver writes \<open>undefined\<close> as SQL NULL\<close>
  "sqlval v = (if v = Undefined then Null else v)"

fun str_lt :: "string \<Rightarrow> string \<Rightarrow> bool" where
  "str_lt [] [] = False"
| "str_lt [] (y # ys) = True"
| "str_lt (x # xs) [] = False"
| "str_lt (x # xs) (y # ys) =
     ((of_char x :: nat) < of_char y \<or> (x = y \<and> str_lt xs ys))"

fun js_lt :: "jsval \<Rightarrow> jsval \<Rightarrow> bool" where
  \<comment> \<open>\<open>a < b\<close> on two strings (code-unit order) or two numbers; the date fields
      compared with it are strings in the fixed format or absent\<close>
  "js_lt (Str a) (Str b) = str_lt a b"
| "js_lt (Num a) (Num b) = (a < b)"
| "js_lt _ _ = False"

section \<open>String literals of the source\<close>

definition s_zaiban :: string where
  \<comment> \<open>status: in progress\<close>
  "s_zaiban =
    [CHR 0xE5, CHR 0x9C, CHR 0xA8, CHR 0xE5, CHR 0x8A, CHR 0x9E]"

definition s_yijie :: string where
  \<comment> \<open>status: closed\<close>
  "s_yijie =
    [CHR 0xE5, CHR 0xB7, CHR 0xB2, CHR 0xE7, CHR 0xBB, CHR 0x93]"

definition s_yijiao :: string where
  \<comment> \<open>status: transferred\<close>
  "s_yijiao =
    [CHR 0xE7, CHR 0xA7, CHR 0xBB, CHR 0xE4, CHR 0xBA, CHR 0xA4]"

definition s_cundang :: string where
  \<comment> \<open>status: archived\<close>
  "s_cundang =
    [CHR 0xE5, CHR 0xAD, CHR 0x98, CHR 0xE6, CHR 0xA1, CHR 0xA3]"

definition role_zhuban :: string where
  \<comment> \<open>role: main officer\<close>
  "role_zhuban =
    [CHR 0xE4, CHR 0xB8, CHR 0xBB, CHR 0xE5, CHR 0x8A, CHR 0x9E]"

definition m_deadline_early :: string where
  \<comment> \<open>deadline earlier than received date\<close>
  "m_deadline_early =
    [CHR 0xE5, CHR 0x8A, CHR 0x9E, CHR 0xE7, CHR 0x90, CHR 0x86, CHR 0xE6, CHR 0x88, CHR 0xAA,
     CHR 0xE6, CHR 0xAD, CHR 0xA2, CHR 0xE6, CHR 0x97, CHR 0xA5, CHR 0xE6, CHR 0x9C, CHR 0x9F,
     CHR 0xE4, CHR 0xB8, CHR 0x8D, CHR 0xE8, CHR 0x83, CHR 0xBD, CHR 0xE6, CHR 0x97, CHR 0xA9,
     CHR 0xE4, CHR 0xBA, CHR 0x8E, CHR 0xE5, CHR 0x8F, CHR 0x97, CHR 0xE6, CHR 0xA1, CHR 0x88,
     CHR 0xE6, CHR 0x97, CHR 0xA5, CHR 0xE6, CHR 0x9C, CHR 0x9F]"

definition m_deadline_field :: string where
  \<comment> \<open>field text for deadlineDate\<close>
  "m_deadline_field =
    [CHR 0xE6, CHR 0x88, CHR 0xAA, CHR 0xE6, CHR 0xAD, CHR 0xA2, CHR 0xE6, CHR 0x97, CHR 0xA5,
     CHR 0xE6, CHR 0x9C, CHR 0x9F, CHR 0xE4, CHR 0xB8, CHR 0x8D, CHR 0xE8, CHR 0x83, CHR 0xBD,
     CHR 0xE6, CHR 0x97, CHR 0xA9, CHR 0xE4, CHR 0xBA, CHR 0x8E, CHR 0xE5, CHR 0x8F, CHR 0x97,
     CHR 0xE6, CHR 0xA1, CHR 0x88, CHR 0xE6, CHR 0x97, CHR 0xA5, CHR 0xE6, CHR 0x9C, CHR 0x9F]"

definition m_closed_needs :: string where
  \<comment> \<open>closed case needs date and result\<close>
  "m_closed_needs =
    [CHR 0xE5, CHR 0xB7, CHR 0xB2, CHR 0xE7, CHR 0xBB, CHR 0x93, CHR 0xE6, CHR 0xA1, CHR 0x88,
     CHR 0xE4, CHR 0xBB, CHR 0xB6, CHR 0xE5, CHR 0xBF, CHR 0x85, CHR 0xE9, CHR 0xA1, CHR 0xBB,
     CHR 0xE5, CHR 0xA1, CHR 0xAB, CHR 0xE5, CHR 0x86, CHR 0x99, CHR 0xE7, CHR 0xBB, CHR 0x93,
     CHR 0xE6, CHR 0xA1, CHR 0x88, CHR 0xE6, CHR 0x97, CHR 0xA5, CHR 0xE6, CHR 0x9C, CHR 0x9F,
     CHR 0xE5, CHR 0x92, CHR 0x8C, CHR 0xE7, CHR 0xBB, CHR 0x93, CHR 0xE6, CHR 0xA1, CHR 0x88,
     CHR 0xE7, CHR 0xBB, CHR 0x93, CHR 0xE6, CHR 0x9E, CHR 0x9C]"

definition m_closedDate_req :: string where
  \<comment> \<open>closing date required\<close>
  "m_closedDate_req =
    [CHR 0xE7, CHR 0xBB, CHR 0x93, CHR 0xE6, CHR 0xA1, CHR 0x88, CHR 0xE6, CHR 0x97, CHR 0xA5,
     CHR 0xE6, CHR 0x9C, CHR 0x9F, CHR 0xE5, CHR 0xBF, CHR 0x85, CHR 0xE5, CHR 0xA1, CHR 0xAB]"

definition m_result_req :: string where
  \<comment> \<open>result required\<close>
  "m_result_req =
    [CHR 0xE5, CHR 0xA4, CHR 0x84, CHR 0xE7, CHR 0x90, CHR 0x86, CHR 0xE7, CHR 0xBB, CHR 0x93,
     CHR 0xE6, CHR 0x9E, CHR 0x9C, CHR 0xE5, CHR 0xBF, CHR 0x85, CHR 0xE5, CHR 0xA1, CHR 0xAB]"

definition m_transfer_needs :: string where
  \<comment> \<open>transfer needs target and time\<close>
  "m_transfer_needs =
    [CHR 0xE7, CHR 0xA7, CHR 0xBB, CHR 0xE4, CHR 0xBA, CHR 0xA4, CHR 0xE7, CHR 0x8A, CHR 0xB6,
     CHR 0xE6, CHR 0x80, CHR 0x81, CHR 0xE5, CHR 0xBF, CHR 0x85, CHR 0xE9, CHR 0xA1, CHR 0xBB,
     CHR 0xE5, CHR 0xA1, CHR 0xAB, CHR 0xE5, CHR 0x86, CHR 0x99, CHR 0xE7, CHR 0xA7, CHR 0xBB,
     CHR 0xE4, CHR 0xBA, CHR 0xA4, CHR 0xE5, CHR 0x8E, CHR 0xBB, CHR 0xE5, CHR 0x90, CHR 0x91,
     CHR 0xE5, CHR 0x92, CHR 0x8C, CHR 0xE7, CHR 0xA7, CHR 0xBB, CHR 0xE4, CHR 0xBA, CHR 0xA4,
     CHR 0xE6, CHR 0x97, CHR 0xB6, CHR 0xE9, CHR 0x97, CHR 0xB4]"

definition m_transferTarget_req :: string where
  \<comment> \<open>transfer target required\<close>
  "m_transferTarget_req =
    [CHR 0xE7, CHR 0xA7, CHR 0xBB, CHR 0xE4, CHR 0xBA, CHR 0xA4, CHR 0xE5, CHR 0x8E, CHR 0xBB,
     CHR 0xE5, CHR 0x90, CHR 0x91, CHR 0xE5, CHR 0xBF, CHR 0x85, CHR 0xE5, CHR 0xA1, CHR 0xAB]"

definition m_transferDate_req :: string where
  \<comment> \<open>transfer time required\<close>
  "m_transferDate_req =
    [CHR 0xE7, CHR 0xA7, CHR 0xBB, CHR 0xE4, CHR 0xBA, CHR 0xA4, CHR 0xE6, CHR 0x97, CHR 0xB6,
     CHR 0xE9, CHR 0x97, CHR 0xB4, CHR 0xE5, CHR 0xBF, CHR 0x85, CHR 0xE5, CHR 0xA1, CHR 0xAB]"

definition m_archive_needs :: string where
  \<comment> \<open>archive needs location and date\<close>
  "m_archive_needs =
    [CHR 0xE5, CHR 0xAD, CHR 0x98, CHR 0xE6, CHR 0xA1, CHR 0xA3, CHR 0xE7, CHR 0x8A, CHR 0xB6,
     CHR 0xE6, CHR 0x80, CHR 0x81, CHR 0xE5, CHR 0xBF, CHR 0x85, CHR 0xE9, CHR 0xA1, CHR 0xBB,
     CHR 0xE5, CHR 0xA1, CHR 0xAB, CHR 0xE5, CHR 0x86, CHR 0x99, CHR 0xE5, CHR 0xAD, CHR 0x98,
     CHR 0xE6, CHR 0xA1, CHR 0xA3, CHR 0xE4, CHR 0xBD, CHR 0x8D, CHR 0xE7, CHR 0xBD, CHR 0xAE,
     CHR 0xE5, CHR 0x92, CHR 0x8C, CHR 0xE5, CHR 0xAD, CHR 0x98, CHR 0xE6, CHR 0xA1, CHR 0xA3,
     CHR 0xE6, CHR 0x97, CHR 0xA5, CHR 0xE6, CHR 0x9C, CHR 0x9F]"

definition m_archiveLocation_req :: string where
  \<comment> \<open>archive location required\<close>
  "m_archiveLocation_req =
    [CHR 0xE5, CHR 0xAD, CHR 0x98, CHR 0xE6, CHR 0xA1, CHR 0xA3, CHR 0xE4, CHR 0xBD, CHR 0x8D,
     CHR 0xE7, CHR 0xBD, CHR 0xAE, CHR 0xE5, CHR 0xBF, CHR 0x85, CHR 0xE5, CHR 0xA1, CHR 0xAB]"

definition m_archiveDate_req :: string where
  \<comment> \<open>archive date required\<close>
  "m_archiveDate_req =
    [CHR 0xE5, CHR 0xAD, CHR 0x98, CHR 0xE6, CHR 0xA1, CHR 0xA3, CHR 0xE6, CHR 0x97, CHR 0xA5,
     CHR 0xE6, CHR 0x9C, CHR 0x9F, CHR 0xE5, CHR 0xBF, CHR 0x85, CHR 0xE5, CHR 0xA1, CHR 0xAB]"

definition m_caseNo_exists :: string where
  \<comment> \<open>case number already exists\<close>
  "m_caseNo_exists =
    [CHR 0xE6, CHR 0xA1, CHR 0x88, CHR 0xE4, CHR 0xBB, CHR 0xB6, CHR 0xE7, CHR 0xBC, CHR 0x96,
     CHR 0xE5, CHR 0x8F, CHR 0xB7, CHR 0xE5, CHR 0xB7, CHR 0xB2, CHR 0xE5, CHR 0xAD, CHR 0x98,
     CHR 0xE5, CHR 0x9C, CHR 0xA8]"

definition m_unique_conflict :: string where
  \<comment> \<open>unique constraint conflict\<close>
  "m_unique_conflict =
    [CHR 0xE5, CHR 0x94, CHR 0xAF, CHR 0xE4, CHR 0xB8, CHR 0x80, CHR 0xE7, CHR 0xBA, CHR 0xA6,
     CHR 0xE6, CHR 0x9D, CHR 0x9F, CHR 0xE5, CHR 0x86, CHR 0xB2, CHR 0xE7, CHR 0xAA, CHR 0x81]"

definition m_check_violation :: string where
  \<comment> \<open>case data violates the business rules\<close>
  "m_check_violation =
    [CHR 0xE6, CHR 0xA1, CHR 0x88, CHR 0xE4, CHR 0xBB, CHR 0xB6, CHR 0xE6, CHR 0x95, CHR 0xB0,
     CHR 0xE6, CHR 0x8D, CHR 0xAE, CHR 0xE4, CHR 0xB8, CHR 0x8D, CHR 0xE7, CHR 0xAC, CHR 0xA6,
     CHR 0xE5, CHR 0x90, CHR 0x88, CHR 0xE4, CHR 0xB8, CHR 0x9A, CHR 0xE5, CHR 0x8A, CHR 0xA1,
     CHR 0xE8, CHR 0xA7, CHR 0x84, CHR 0xE5, CHR 0x88, CHR 0x99]"

definition m_fk_violation :: string where
  \<comment> \<open>referenced data missing or still referenced\<close>
  "m_fk_violation =
    [CHR 0xE5, CHR 0x85, CHR 0xB3, CHR 0xE8, CHR 0x81, CHR 0x94, CHR 0xE6, CHR 0x95, CHR 0xB0,
     CHR 0xE6, CHR 0x8D, CHR 0xAE, CHR 0xE4, CHR 0xB8, CHR 0x8D, CHR 0xE5, CHR 0xAD, CHR 0x98,
     CHR 0xE5, CHR 0x9C, CHR 0xA8, CHR 0xE6, CHR 0x88, CHR 0x96, CHR 0xE4, CHR 0xBB, CHR 0x8D,
     CHR 0xE8, CHR 0xA2, CHR 0xAB, CHR 0xE5, CHR 0xBC, CHR 0x95, CHR 0xE7, CHR 0x94, CHR 0xA8,
     CHR 0xEF, CHR 0xBC, CHR 0x8C, CHR 0xE6, CHR 0x93, CHR 0x8D, CHR 0xE4, CHR 0xBD, CHR 0x9C,
     CHR 0xE5, CHR 0xA4, CHR 0xB1, CHR 0xE8, CHR 0xB4, CHR 0xA5]"

definition m_case_missing :: string where
  \<comment> \<open>case does not exist\<close>
  "m_case_missing =
    [CHR 0xE6, CHR 0xA1, CHR 0x88, CHR 0xE4, CHR 0xBB, CHR 0xB6, CHR 0xE4, CHR 0xB8, CHR 0x8D,
     CHR 0xE5, CHR 0xAD, CHR 0x98, CHR 0xE5, CHR 0x9C, CHR 0xA8]"

definition m_no_view :: string where
  \<comment> \<open>not allowed to view the case\<close>
  "m_no_view =
    [CHR 0xE6, CHR 0x97, CHR 0xA0, CHR 0xE6, CHR 0x9D, CHR 0x83, CHR 0xE6, CHR 0x9F, CHR 0xA5,
     CHR 0xE7, CHR 0x9C, CHR 0x8B, CHR 0xE8, CHR 0xAF, CHR 0xA5, CHR 0xE6, CHR 0xA1, CHR 0x88,
     CHR 0xE4, CHR 0xBB, CHR 0xB6]"

definition m_no_modify :: string where
  \<comment> \<open>not allowed to modify the case\<close>
  "m_no_modify =
    [CHR 0xE6, CHR 0x97, CHR 0xA0, CHR 0xE6, CHR 0x9D, CHR 0x83, CHR 0xE4, CHR 0xBF, CHR 0xAE,
     CHR 0xE6, CHR 0x94, CHR 0xB9, CHR 0xE8, CHR 0xAF, CHR 0xA5, CHR 0xE6, CHR 0xA1, CHR 0x88,
     CHR 0xE4, CHR 0xBB, CHR 0xB6]"

definition m_no_delete :: string where
  \<comment> \<open>not allowed to delete the case\<close>
  "m_no_delete =
    [CHR 0xE6, CHR 0x97, CHR 0xA0, CHR 0xE6, CHR 0x9D, CHR 0x83, CHR 0xE5, CHR 0x88, CHR 0xA0,
     CHR 0xE9, CHR 0x99, CHR 0xA4, CHR 0xE8, CHR 0xAF, CHR 0xA5, CHR 0xE6, CHR 0xA1, CHR 0x88,
     CHR 0xE4, CHR 0xBB, CHR 0xB6]"

definition m_delete_only_zaiban :: string where
  \<comment> \<open>only cases in progress may be deleted\<close>
  "m_delete_only_zaiban =
    [CHR 0xE4, CHR 0xBB, CHR 0x85, CHR 0xE5, CHR 0x85, CHR 0x81, CHR 0xE8, CHR 0xAE, CHR 0xB8,
     CHR 0xE5, CHR 0x88, CHR 0xA0, CHR 0xE9, CHR 0x99, CHR 0xA4, CHR 0xE7, CHR 0x8A, CHR 0xB6,
     CHR 0xE6, CHR 0x80, CHR 0x81, CHR 0xE4, CHR 0xB8, CHR 0xBA, CHR 0xE2, CHR 0x80, CHR 0x9C,
     CHR 0xE5, CHR 0x9C, CHR 0xA8, CHR 0xE5, CHR 0x8A, CHR 0x9E, CHR 0xE2, CHR 0x80, CHR 0x9D,
     CHR 0xE7, CHR 0x9A, CHR 0x84, CHR 0xE6, CHR 0xA1, CHR 0x88, CHR 0xE4, CHR 0xBB, CHR 0xB6]"

definition m_bad_login :: string where
  \<comment> \<open>wrong badge number or password\<close>
  "m_bad_login =
    [CHR 0xE8, CHR 0xAD, CHR 0xA6, CHR 0xE5, CHR 0x8F, CHR 0xB7, CHR 0xE6, CHR 0x88, CHR 0x96,
     CHR 0xE5, CHR 0xAF, CHR 0x86, CHR 0xE7, CHR 0xA0, CHR 0x81, CHR 0xE9, CHR 0x94, CHR 0x99,
     CHR 0xE8, CHR 0xAF, CHR 0xAF]"

definition m_locked :: string where
  \<comment> \<open>account locked\<close>
  "m_locked =
    [CHR 0xE8, CHR 0xB4, CHR 0xA6, CHR 0xE5, CHR 0x8F, CHR 0xB7, CHR 0xE5, CHR 0xB7, CHR 0xB2,
     CHR 0xE9, CHR 0x94, CHR 0x81, CHR 0xE5, CHR 0xAE, CHR 0x9A, CHR 0xEF, CHR 0xBC, CHR 0x8C,
     CHR 0xE8, CHR 0xAF, CHR 0xB7, CHR 0xE8, CHR 0x81, CHR 0x94, CHR 0xE7, CHR 0xB3, CHR 0xBB,
     CHR 0xE7, CHR 0xAE, CHR 0xA1, CHR 0xE7, CHR 0x90, CHR 0x86, CHR 0xE5, CHR 0x91, CHR 0x98]"

definition m_register_empty :: string where
  \<comment> \<open>badge number, name, password must not be empty\<close>
  "m_register_empty =
    [CHR 0xE8, CHR 0xAD, CHR 0xA6, CHR 0xE5, CHR 0x8F, CHR 0xB7, CHR 0xE3, CHR 0x80, CHR 0x81,
     CHR 0xE5, CHR 0xA7, CHR 0x93, CHR 0xE5, CHR 0x90, CHR 0x8D, CHR 0xE3, CHR 0x80, CHR 0x81,
     CHR 0xE5, CHR 0xAF, CHR 0x86, CHR 0xE7, CHR 0xA0, CHR 0x81, CHR 0xE4, CHR 0xB8, CHR 0x8D,
     CHR 0xE8, CHR 0x83, CHR 0xBD, CHR 0xE4, CHR 0xB8, CHR 0xBA, CHR 0xE7, CHR 0xA9, CHR 0xBA]"

definition m_badge_exists :: string where
  \<comment> \<open>badge number already exists\<close>
  "m_badge_exists =
    [CHR 0xE8, CHR 0xAD, CHR 0xA6, CHR 0xE5, CHR 0x8F, CHR 0xB7, CHR 0xE5, CHR 0xB7, CHR 0xB2,
     CHR 0xE5, CHR 0xAD, CHR 0x98, CHR 0xE5, CHR 0x9C, CHR 0xA8, CHR 0xEF, CHR 0xBC, CHR 0x8C,
     CHR 0xE8, CHR 0xAF, CHR 0xB7, CHR 0xE8, CHR 0x81, CHR 0x94, CHR 0xE7, CHR 0xB3, CHR 0xBB,
     CHR 0xE7, CHR 0xAE, CHR 0xA1, CHR 0xE7, CHR 0x90, CHR 0x86, CHR 0xE5, CHR 0x91, CHR 0x98,
     CHR 0xE6, CHR 0x88, CHR 0x96, CHR 0xE7, CHR 0x9B, CHR 0xB4, CHR 0xE6, CHR 0x8E, CHR 0xA5,
     CHR 0xE7, CHR 0x99, CHR 0xBB, CHR 0xE5, CHR 0xBD, CHR 0x95]"

definition m_register_failed :: string where
  \<comment> \<open>registration failed, retry later\<close>
  "m_register_failed =
    [CHR 0xE6, CHR 0xB3, CHR 0xA8, CHR 0xE5, CHR 0x86, CHR 0x8C, CHR 0xE5, CHR 0xA4, CHR 0xB1,
     CHR 0xE8, CHR 0xB4, CHR 0xA5, CHR 0xEF, CHR 0xBC, CHR 0x8C, CHR 0xE8, CHR 0xAF, CHR 0xB7,
     CHR 0xE7, CHR 0xA8, CHR 0x8D, CHR 0xE5, CHR 0x90, CHR 0x8E, CHR 0xE9, CHR 0x87, CHR 0x8D,
     CHR 0xE8, CHR 0xAF, CHR 0x95]"

definition m_params_invalid :: string where
  \<comment> \<open>parameter validation failed\<close>
  "m_params_invalid =
    [CHR 0xE5, CHR 0x8F, CHR 0x82, CHR 0xE6, CHR 0x95, CHR 0xB0, CHR 0xE6, CHR 0xA0, CHR 0xA1,
     CHR 0xE9, CHR 0xAA, CHR 0x8C, CHR 0xE5, CHR 0xA4, CHR 0xB1, CHR 0xE8, CHR 0xB4, CHR 0xA5]"

definition m_token_invalid :: string where
  \<comment> \<open>login state invalid or expired\<close>
  "m_token_invalid =
    [CHR 0xE7, CHR 0x99, CHR 0xBB, CHR 0xE5, CHR 0xBD, CHR 0x95, CHR 0xE7, CHR 0x8A, CHR 0xB6,
     CHR 0xE6, CHR 0x80, CHR 0x81, CHR 0xE6, CHR 0x97, CHR 0xA0, CHR 0xE6, CHR 0x95, CHR 0x88,
     CHR 0xE6, CHR 0x88, CHR 0x96, CHR 0xE5, CHR 0xB7, CHR 0xB2, CHR 0xE8, CHR 0xBF, CHR 0x87,
     CHR 0xE6, CHR 0x9C, CHR 0x9F]"

definition m_internal :: string where
  \<comment> \<open>internal server error\<close>
  "m_internal =
    [CHR 0xE6, CHR 0x9C, CHR 0x8D, CHR 0xE5, CHR 0x8A, CHR 0xA1, CHR 0xE5, CHR 0x99, CHR 0xA8,
     CHR 0xE5, CHR 0x86, CHR 0x85, CHR 0xE9, CHR 0x83, CHR 0xA8, CHR 0xE9, CHR 0x94, CHR 0x99,
     CHR 0xE8, CHR 0xAF, CHR 0xAF]"

definition m_unknown_db :: string where
  \<comment> \<open>unknown database error\<close>
  "m_unknown_db =
    [CHR 0xE6, CHR 0x9C, CHR 0xAA, CHR 0xE7, CHR 0x9F, CHR 0xA5, CHR 0xE6, CHR 0x95, CHR 0xB0,
     CHR 0xE6, CHR 0x8D, CHR 0xAE, CHR 0xE5, CHR 0xBA, CHR 0x93, CHR 0xE9, CHR 0x94, CHR 0x99,
     CHR 0xE8, CHR 0xAF, CHR 0xAF]"

definition m_db_exception :: string where
  \<comment> \<open>database operation failed\<close>
  "m_db_exception =
    [CHR 0xE6, CHR 0x95, CHR 0xB0, CHR 0xE6, CHR 0x8D, CHR 0xAE, CHR 0xE5, CHR 0xBA, CHR 0x93,
     CHR 0xE6, CHR 0x93, CHR 0x8D, CHR 0xE4, CHR 0xBD, CHR 0x9C, CHR 0xE5, CHR 0xBC, CHR 0x82,
     CHR 0xE5, CHR 0xB8, CHR 0xB8]"

section \<open>Error taxonomy (utils/errors.js)\<close>

datatype errorCode =
  UNAUTHORIZED | FORBIDDEN | VALIDATION_ERROR | NOT_FOUND | CONFLICT | DB_ERROR | INTERNAL_ERROR

fun DEFAULT_STATUS_BY_CODE :: "errorCode \<Rightarrow> nat" where
  "DEFAULT_STATUS_BY_CODE UNAUTHORIZED = 401"
| "DEFAULT_STATUS_BY_CODE FORBIDDEN = 403"
| "DEFAULT_STATUS_BY_CODE VALIDATION_ERROR = 400"
| "DEFAULT_STATUS_BY_CODE NOT_FOUND = 404"
| "DEFAULT_STATUS_BY_CODE CONFLICT = 409"
| "DEFAULT_STATUS_BY_CODE DB_ERROR = 500"
| "DEFAULT_STATUS_BY_CODE INTERNAL_ERROR = 500"

text \<open>
  An error raised by the storage driver or by a library: an \<open>Error\<close> object with a name,
  a message, a stack, the driver's \<open>code\<close> and \<open>sqlMessage\<close>, and the two marks the
  boundary handler looks at (\<open>isJoi\<close> with Joi's list of path and message).
\<close>

record rawError =
  rname :: string
  rmessage :: string
  rstack :: string
  rcode :: "string option"
  sqlMessage :: "string option"
  isJoi :: bool
  joiDetails :: "(string list \<times> string) list option"

text \<open>
  The \<open>details\<close> of an application error: a field-keyed map (kept as the object literal
  lists it, a key whose value is \<open>undefined\<close> included), the raw message of a check
  constraint, or the original error that \<open>fromMysqlError\<close> attaches.
\<close>

datatype details =
  FieldErrors "(string \<times> string option) list"
| FieldErrorsUndefined
| RawSql "string option"
| OriginalError "rawError option"
| OriginalMessage string

record AppError =
  errorCode :: errorCode
  message :: string
  status :: nat
  details :: "details option"
  isOperational :: bool

datatype thrown = App AppError | Raw rawError

definition mkAppError :: "errorCode \<Rightarrow> string \<Rightarrow> details option \<Rightarrow> bool \<Rightarrow> AppError" where
  \<comment> \<open>the constructor as the seven helpers call it: \<open>options.status\<close> is the table's entry\<close>
  "mkAppError c m d op =
     \<lparr>errorCode = c, message = m, status = DEFAULT_STATUS_BY_CODE c, details = d,
      isOperational = op\<rparr>"

definition unauthorized :: "string \<Rightarrow> details option \<Rightarrow> AppError" where
  "unauthorized m d = mkAppError UNAUTHORIZED m d True"

definition forbidden :: "string \<Rightarrow> details option \<Rightarrow> AppError" where
  "forbidden m d = mkAppError FORBIDDEN m d True"

definition validationError :: "string \<Rightarrow> details option \<Rightarrow> AppError" where
  "validationError m d = mkAppError VALIDATION_ERROR m d True"

definition notFound :: "string \<Rightarrow> details option \<Rightarrow> AppError" where
  "notFound m d = mkAppError NOT_FOUND m d True"

definition conflict :: "string \<Rightarrow> details option \<Rightarrow> AppError" where
  "conflict m d = mkAppError CONFLICT m d True"

definition dbError :: "string \<Rightarrow> details option \<Rightarrow> AppError" where
  "dbError m d = mkAppError DB_ERROR m d True"

definition internalError :: "string \<Rightarrow> details option \<Rightarrow> AppError" where
  "internalError m d = mkAppError INTERNAL_ERROR m d False"

definition errorToString :: "string \<Rightarrow> string \<Rightarrow> string" where
  \<comment> \<open>\<open>Error.prototype.toString\<close>: name, colon, message; one of them alone when the
      other is empty\<close>
  "errorToString n m =
     (if n = [] then m else if m = [] then n else n @ '': '' @ m)"

fun thrownToString :: "thrown \<Rightarrow> string" where
  \<comment> \<open>what \<open>super(message)\<close> makes of an error object passed as the message\<close>
  "thrownToString (App e) = errorToString ''AppError'' (message e)"
| "thrownToString (Raw r) = errorToString (rname r) (rmessage r)"

fun fromMysqlError :: "rawError option \<Rightarrow> string \<Rightarrow> AppError" where
  \<comment> \<open>\<open>defaultMessage\<close> is the empty string when the caller gives none\<close>
  "fromMysqlError None dm =
     internalError (if dm = [] then m_unknown_db else dm) (Some (OriginalError None))"
| "fromMysqlError (Some err) dm =
     (case rcode err of
        None \<Rightarrow> internalError (if dm = [] then m_unknown_db else dm)
                  (Some (OriginalError (Some err)))
      | Some c \<Rightarrow>
          if c = [] then internalError (if dm = [] then m_unknown_db else dm)
                  (Some (OriginalError (Some err)))
          else if c = ''ER_DUP_ENTRY''
          then conflict (if dm = [] then m_unique_conflict else dm)
                  (Some (OriginalMessage (rmessage err)))
          else dbError (if dm = [] then m_db_exception else dm)
                  (Some (OriginalMessage (rmessage err))))"

text \<open>
  The services test \<open>err.isAppError\<close> and \<open>err.code\<close> on what they catch. The
  constructor of \<open>AppError\<close> sets \<open>name\<close>, \<open>errorCode\<close>, \<open>status\<close>, \<open>details\<close> and
  \<open>isOperational\<close>, and nothing in the repository defines a property \<open>isAppError\<close>
  (it is a function exported by utils/errors.js) or \<open>code\<close> on it; a driver error has a
  \<open>code\<close> and no \<open>isAppError\<close>.
\<close>

fun prop_isAppError :: "thrown \<Rightarrow> jsval" where
  "prop_isAppError (App e) = Undefined"
| "prop_isAppError (Raw r) = Undefined"

fun prop_code :: "thrown \<Rightarrow> string option" where
  "prop_code (App e) = None"
| "prop_code (Raw r) = rcode r"

fun prop_message :: "thrown \<Rightarrow> string" where
  "prop_message (App e) = message e"
| "prop_message (Raw r) = rmessage r"

fun prop_sqlMessage :: "thrown \<Rightarrow> string option" where
  "prop_sqlMessage (App e) = None"
| "prop_sqlMessage (Raw r) = sqlMessage r"

section \<open>Boundary error handler (middleware/errorHandler.js)\<close>

fun fe_put :: "string \<Rightarrow> string \<Rightarrow> (string \<times> string option) list \<Rightarrow> (string \<times> string option) list" where
  \<comment> \<open>\<open>acc[path] = text\<close> on an object: an existing key keeps its place\<close>
  "fe_put k v [] = [(k, Some v)]"
| "fe_put k v ((k', v') # rest) =
     (if k = k' then (k, Some v) # rest else (k', v') # fe_put k v rest)"

fun join_dot :: "string list \<Rightarrow> string" where
  "join_dot [] = []"
| "join_dot [p] = p"
| "join_dot (p # q # ps) = p @ ''.'' @ join_dot (q # ps)"

definition strip_quotes :: "string \<Rightarrow> string" where
  \<comment> \<open>\<open>message.replace(/["]/g, '')\<close>\<close>
  "strip_quotes s = filter (\<lambda>c. c \<noteq> CHR 0x22) s"

definition joiFieldErrors :: "(string list \<times> string) list \<Rightarrow> (string \<times> string option) list" where
  "joiFieldErrors ds =
     foldl (\<lambda>acc d. fe_put (if fst d \<noteq> [] then join_dot (fst d) else ''value'')
                         (strip_quotes (snd d)) acc) [] ds"

record payload =
  success :: bool
  p_errorCode :: errorCode
  p_message :: string
  p_details :: "details option"
  p_stack :: "string option"

record response =
  r_status :: nat
  r_body :: payload
  r_logged :: "thrown list"

text \<open>
  \<open>isProduction\<close> is read from the environment when the module loads. The \<open>stack\<close> of an
  error object is what the runtime recorded when the object was constructed: \<open>errStack\<close>
  is the one of the application error handed to the handler, \<open>newStack\<close> the one recorded
  for an error that the handler constructs itself during this call.
\<close>

definition errorHandler :: "bool \<Rightarrow> string \<Rightarrow> string \<Rightarrow> thrown \<Rightarrow> response" where
  "errorHandler isProduction errStack newStack err =
     (let step1 =
            (case err of
               App e \<Rightarrow> (App e, errStack)
             | Raw r \<Rightarrow>
                 if isJoi r
                 then (App (validationError m_params_invalid
                         (Some (case joiDetails r of
                                  None \<Rightarrow> FieldErrorsUndefined
                                | Some ds \<Rightarrow> FieldErrors (joiFieldErrors ds)))), newStack)
                 else (Raw r, rstack r));
          step2 =
            (case fst step1 of
               App e \<Rightarrow> step1
             | Raw r \<Rightarrow>
                 if rname r = ''JsonWebTokenError'' \<or> rname r = ''TokenExpiredError''
                 then (App (unauthorized m_token_invalid None), newStack)
                 else step1);
          step3 =
            (case fst step2 of
               App e \<Rightarrow> (e, snd step2, [])
             | Raw r \<Rightarrow> (internalError m_internal None, newStack, [err]));
          appError = fst step3
      in \<lparr>r_status = (if status appError \<noteq> 0 then status appError else 500),
          r_body =
            \<lparr>success = False,
             p_errorCode = errorCode appError,
             p_message = (if message appError \<noteq> [] then message appError else m_internal),
             p_details = details appError,
             p_stack = (if \<not> isProduction then Some (fst (snd step3)) else None)\<rparr>,
          r_logged = snd (snd step3)\<rparr>)"

definition unclassified :: "thrown \<Rightarrow> bool" where
  \<comment> \<open>neither an application error, nor a Joi error, nor one of the two token errors\<close>
  "unclassified err =
     (case err of
        App e \<Rightarrow> False
      | Raw r \<Rightarrow> \<not> isJoi r \<and> rname r \<noteq> ''JsonWebTokenError'' \<and> rname r \<noteq> ''TokenExpiredError'')"

section \<open>Storage access and its failures\<close>

text \<open>
  Every call on the pool or on a connection (a query, \<open>getConnection\<close>,
  \<open>beginTransaction\<close>, \<open>commit\<close>) may be rejected by the driver. The outcome of the calls
  of one request is given in order by a list: \<open>Some e\<close> rejects the call with \<open>e\<close>,
  \<open>None\<close> lets it through, and past the end of the list every call goes through.
\<close>

type_synonym faults = "rawError option list"

fun nextFault :: "faults \<Rightarrow> rawError option \<times> faults" where
  "nextFault [] = (None, [])"
| "nextFault (f # fs) = (f, fs)"

definition poolQuery :: "faults \<Rightarrow> thrown + faults" where
  \<comment> \<open>a reading \<open>pool.query\<close>: rejected, or the oracle for the calls that follow\<close>
  "poolQuery fs = (case nextFault fs of (Some e, _) \<Rightarrow> Inl (Raw e) | (None, fs') \<Rightarrow> Inr fs')"

section \<open>Login and registration (modules/auth/service.js)\<close>

record officerRec =
  o_id :: nat
  o_name :: string
  o_badge_no :: string
  o_phone :: jsval
  o_status :: jsval
  o_is_active :: jsval
  o_password_hash :: "string option"

record roleRec =
  role_id :: nat
  role_code :: string
  role_name :: string

record authdb =
  police_officers :: "officerRec list"
  roles :: "roleRec list"
  officer_roles :: "(nat \<times> nat) list"
  permissions :: "(nat \<times> string) list"
  role_permissions :: "(nat \<times> nat) list"

definition findOfficerByBadgeNo :: "authdb \<Rightarrow> string \<Rightarrow> officerRec option" where
  "findOfficerByBadgeNo store badgeNo =
     (case filter (\<lambda>r. o_badge_no r = badgeNo) (police_officers store) of
        [] \<Rightarrow> None
      | r # _ \<Rightarrow> Some r)"

record rolesAndPermissions =
  x_roleIds :: "nat list"
  x_roles :: "string list"
  x_roleNames :: "string list"
  x_permissions :: "string list"

definition roleRowsOf :: "authdb \<Rightarrow> nat \<Rightarrow> roleRec list" where
  \<comment> \<open>\<open>officer_roles JOIN roles ... WHERE officer_id = ?\<close>\<close>
  "roleRowsOf store officerId =
     concat (map (\<lambda>link. filter (\<lambda>r. role_id r = snd link) (roles store))
                 (filter (\<lambda>link. fst link = officerId) (officer_roles store)))"

definition permCodesOf :: "authdb \<Rightarrow> nat list \<Rightarrow> string list" where
  \<comment> \<open>\<open>SELECT DISTINCT p.code ... WHERE rp.role_id IN (?)\<close>\<close>
  "permCodesOf store roleIds =
     remdups (concat (map (\<lambda>link. map snd (filter (\<lambda>p. fst p = snd link) (permissions store)))
                          (filter (\<lambda>link. fst link \<in> set roleIds) (role_permissions store))))"

definition loadRolesAndPermissions ::
    "authdb \<Rightarrow> nat \<Rightarrow> faults \<Rightarrow> thrown + (rolesAndPermissions \<times> faults)" where
  "loadRolesAndPermissions store officerId fs =
     (case poolQuery fs of
        Inl e \<Rightarrow> Inl e
      | Inr fs1 \<Rightarrow>
          (let roleRows = roleRowsOf store officerId;
               roleIds = map role_id roleRows
           in if length roleIds > 0
              then (case poolQuery fs1 of
                      Inl e \<Rightarrow> Inl e
                    | Inr fs2 \<Rightarrow>
                        Inr (\<lparr>x_roleIds = roleIds, x_roles = map role_code roleRows,
                              x_roleNames = map role_name roleRows,
                              x_permissions = permCodesOf store roleIds\<rparr>, fs2))
              else Inr (\<lparr>x_roleIds = roleIds, x_roles = map role_code roleRows,
                         x_roleNames = map role_name roleRows, x_permissions = []\<rparr>, fs1)))"

record userInfo =
  u_id :: nat
  u_name :: string
  u_badgeNo :: string
  u_phone :: jsval
  u_status :: jsval
  u_isActive :: bool
  u_roles :: "string list"
  u_roleNames :: "string list"
  u_permissions :: "string list"

definition mapOfficerToUser :: "officerRec \<Rightarrow> rolesAndPermissions \<Rightarrow> userInfo" where
  "mapOfficerToUser row extra =
     \<lparr>u_id = o_id row, u_name = o_name row, u_badgeNo = o_badge_no row, u_phone = o_phone row,
      u_status = o_status row,
      u_isActive = (o_is_active row = Num 1 \<or> o_is_active row = Bool True
                    \<or> o_is_active row = Str ''1''),
      u_roles = x_roles extra, u_roleNames = x_roleNames extra,
      u_permissions = x_permissions extra\<rparr>"

record tokenPayload =
  t_id :: nat
  t_badgeNo :: string
  t_name :: string
  t_roles :: "string list"
  t_permissions :: "string list"

definition tokenPayloadOf :: "userInfo \<Rightarrow> tokenPayload" where
  "tokenPayloadOf u =
     \<lparr>t_id = u_id u, t_badgeNo = u_badgeNo u, t_name = u_name u, t_roles = u_roles u,
      t_permissions = u_permissions u\<rparr>"

text \<open>
  \<open>compare\<close> stands for \<open>bcrypt.compare\<close>, \<open>hash\<close> for \<open>bcrypt.hash\<close> with cost 10 and
  \<open>signToken\<close> for the signing function of config/jwt.js; the service only passes values
  to them.
\<close>

definition login ::
    "(string \<Rightarrow> string \<Rightarrow> bool) \<Rightarrow> (tokenPayload \<Rightarrow> string) \<Rightarrow> string \<Rightarrow> string \<Rightarrow>
     authdb \<Rightarrow> faults \<Rightarrow> thrown + (string \<times> userInfo)" where
  "login compare signToken badgeNo password store fs =
     (case poolQuery fs of
        Inl e \<Rightarrow> Inl e
      | Inr fs1 \<Rightarrow>
          (case findOfficerByBadgeNo store badgeNo of
             None \<Rightarrow> Inl (App (unauthorized m_bad_login None))
           | Some officer \<Rightarrow>
               if o_status officer = Str ''LOCKED''
               then Inl (App (unauthorized m_locked None))
               else if \<not> compare password
                         (case o_password_hash officer of None \<Rightarrow> [] | Some h \<Rightarrow> h)
               then Inl (App (unauthorized m_bad_login None))
               else (case loadRolesAndPermissions store (o_id officer) fs1 of
                       Inl e \<Rightarrow> Inl e
                     | Inr (extra, fs2) \<Rightarrow>
                         (let user = mapOfficerToUser officer extra
                          in Inr (signToken (tokenPayloadOf user), user)))))"

definition noRoles :: rolesAndPermissions where
  "noRoles = \<lparr>x_roleIds = [], x_roles = [], x_roleNames = [], x_permissions = []\<rparr>"

text \<open>
  \<open>insertId\<close> is the key the storage engine assigns to the inserted row.
\<close>

definition register ::
    "(string \<Rightarrow> string) \<Rightarrow> (tokenPayload \<Rightarrow> string) \<Rightarrow> nat \<Rightarrow> string \<Rightarrow> string \<Rightarrow> string \<Rightarrow>
     jsval \<Rightarrow> authdb \<Rightarrow> faults \<Rightarrow> (thrown + (string \<times> userInfo)) \<times> authdb" where
  "register hash signToken insertId badgeNo name password phone store fs =
     (if badgeNo = [] \<or> name = [] \<or> password = []
      then (Inl (App (validationError m_register_empty None)), store)
      else
        (case poolQuery fs of
           Inl e \<Rightarrow> (Inl e, store)
         | Inr fs1 \<Rightarrow>
             (case findOfficerByBadgeNo store badgeNo of
                Some existed \<Rightarrow> (Inl (App (conflict m_badge_exists None)), store)
              | None \<Rightarrow>
                  (case poolQuery fs1 of
                     Inl err \<Rightarrow> (Inl (App (dbError m_register_failed None)), store)
                   | Inr fs2 \<Rightarrow>
                       (let stored = \<lparr>o_id = insertId, o_name = name, o_badge_no = badgeNo,
                                      o_phone = or_null phone, o_status = Str ''ACTIVE'',
                                      o_is_active = Num 1,
                                      o_password_hash = Some (hash password)\<rparr>;
                            officerRow = stored\<lparr>o_password_hash := None\<rparr>;
                            user = mapOfficerToUser officerRow noRoles
                        in (Inr (signToken (tokenPayloadOf user), user),
                            store\<lparr>police_officers := police_officers store @ [stored]\<rparr>))))))"

section \<open>Cases: data (modules/cases/service.js)\<close>

record user =
  uid :: jsval
  u_perms :: "string list option"

definition hasPermission :: "user \<Rightarrow> string \<Rightarrow> bool" where
  \<comment> \<open>\<open>u_perms\<close> is \<open>None\<close> when \<open>user.permissions\<close> is not an array\<close>
  "hasPermission u c = (case u_perms u of None \<Rightarrow> False | Some ps \<Rightarrow> c \<in> set ps)"

fun includes_str :: "string \<Rightarrow> string \<Rightarrow> bool" where
  \<comment> \<open>\<open>s.includes(sub)\<close>\<close>
  "includes_str [] sub = (sub = [])"
| "includes_str (c # cs) sub = (take (length sub) (c # cs) = sub \<or> includes_str cs sub)"

definition validateCaseBusinessRules :: "jsobj \<Rightarrow> AppError option" where
  \<comment> \<open>\<open>Some e\<close>: the function throws \<open>e\<close>; \<open>None\<close>: it returns\<close>
  "validateCaseBusinessRules caseData =
     (let receivedDate = jsget caseData ''receivedDate'';
          deadlineDate = jsget caseData ''deadlineDate'';
          status = (if jsget caseData ''status'' = Undefined then Str s_zaiban
                    else jsget caseData ''status'');
          closedDate = jsget caseData ''closedDate'';
          resultItemId = jsget caseData ''resultItemId'';
          transferTarget = jsget caseData ''transferTarget'';
          transferDate = jsget caseData ''transferDate'';
          archiveLocation = jsget caseData ''archiveLocation'';
          archiveDate = jsget caseData ''archiveDate''
      in if truthy deadlineDate \<and> truthy receivedDate \<and> js_lt deadlineDate receivedDate
         then Some (validationError m_deadline_early
                (Some (FieldErrors [(''deadlineDate'', Some m_deadline_field)])))
         else if status = Str s_yijie \<and> (\<not> truthy closedDate \<or> isNil resultItemId)
         then Some (validationError m_closed_needs
                (Some (FieldErrors
                   [(''closedDate'', if \<not> truthy closedDate then Some m_closedDate_req else None),
                    (''resultItemId'', if isNil resultItemId then Some m_result_req else None)])))
         else if status = Str s_yijiao \<and> (\<not> truthy transferTarget \<or> \<not> truthy transferDate)
         then Some (validationError m_transfer_needs
                (Some (FieldErrors
                   [(''transferTarget'',
                       if \<not> truthy transferTarget then Some m_transferTarget_req else None),
                    (''transferDate'',
                       if \<not> truthy transferDate then Some m_transferDate_req else None)])))
         else if status = Str s_cundang \<and> (\<not> truthy archiveLocation \<or> \<not> truthy archiveDate)
         then Some (validationError m_archive_needs
                (Some (FieldErrors
                   [(''archiveLocation'',
                       if \<not> truthy archiveLocation then Some m_archiveLocation_req else None),
                    (''archiveDate'',
                       if \<not> truthy archiveDate then Some m_archiveDate_req else None)])))
         else None)"

definition handleCaseDbError :: "thrown \<Rightarrow> AppError" where
  \<comment> \<open>the function always throws; the result is what it throws\<close>
  "handleCaseDbError err =
     (if prop_code err = Some ''ER_DUP_ENTRY''
      then (if prop_message err \<noteq> [] \<and> includes_str (prop_message err) ''uk_case_no''
            then conflict m_caseNo_exists
                   (Some (FieldErrors [(''caseNo'', Some m_caseNo_exists)]))
            else conflict m_unique_conflict None)
      else if prop_code err = Some ''ER_CHECK_CONSTRAINT''
      then validationError m_check_violation (Some (RawSql (prop_sqlMessage err)))
      else if prop_code err = Some ''ER_NO_REFERENCED_ROW_2''
              \<or> prop_code err = Some ''ER_ROW_IS_REFERENCED_2''
      then validationError m_fk_violation None
      else dbError (thrownToString err) None)"

definition catchCaseError :: "(thrown + 'a) \<times> 's \<Rightarrow> (thrown + 'a) \<times> 's" where
  \<comment> \<open>the \<open>catch\<close> block shared by createCase, updateCase and deleteCase:
      \<open>if (err && err.isAppError) throw err; handleCaseDbError(err)\<close>\<close>
  "catchCaseError r =
     (case fst r of
        Inl err \<Rightarrow>
          (Inl (if truthy (prop_isAppError err) then err else App (handleCaseDbError err)),
           snd r)
      | Inr v \<Rightarrow> r)"

record officerRow =
  co_case_id :: nat
  co_officer_id :: jsval
  co_role :: jsval
  co_remark :: jsval

record personRow =
  cp_case_id :: nat
  cp_name :: jsval
  cp_id_no :: jsval
  cp_contact :: jsval
  cp_role_item_id :: jsval
  cp_remark :: jsval

text \<open>
  The three tables of a case. A row of \<open>case_records\<close> is kept as the object that the
  services select (the column aliases as keys); the child tables are kept in the order of
  their keys, which is the order of insertion.
\<close>

record db =
  case_records :: "(nat \<times> jsobj) list"
  case_officers :: "officerRow list"
  case_persons :: "personRow list"

record officerIn =
  officerId :: jsval
  role :: jsval
  remark :: jsval

record personIn =
  p_name :: jsval
  p_idNo :: jsval
  p_contact :: jsval
  p_roleItemId :: jsval
  p_remark :: jsval

text \<open>
  A child collection of a payload: the key is absent (or \<open>undefined\<close>), holds something
  that is not an array, or holds an array.
\<close>

datatype 'a coll = Missing | NotArray | Items "'a list"

fun listOf :: "'a coll \<Rightarrow> 'a list" where
  \<comment> \<open>\<open>Array.isArray(xs) ? xs : []\<close>, after the default \<open>[]\<close> of a missing key\<close>
  "listOf (Items xs) = xs"
| "listOf _ = []"

record casePayload =
  pfields :: jsobj
  officers :: "officerIn coll"
  persons :: "personIn coll"

section \<open>Cases: transactions (config/db.js)\<close>

record txn =
  tdb :: db
  tfaults :: faults

definition connQuery :: "(db \<Rightarrow> db) \<Rightarrow> txn \<Rightarrow> thrown + txn" where
  \<comment> \<open>a writing \<open>conn.query\<close> inside a transaction\<close>
  "connQuery f t =
     (case nextFault (tfaults t) of
        (Some e, _) \<Rightarrow> Inl (Raw e)
      | (None, fs) \<Rightarrow> Inr \<lparr>tdb = f (tdb t), tfaults = fs\<rparr>)"

text \<open>
  \<open>withTransaction\<close>: the connection works on the committed tables as they are at
  \<open>beginTransaction\<close>; \<open>commit\<close> publishes the work, and after a \<open>rollback\<close> the committed
  tables are what they were. A failure of \<open>rollback\<close> itself is only logged and the first
  error is thrown again. Other requests writing in between are outside this model.
\<close>

definition withTransaction ::
    "(txn \<Rightarrow> thrown + ('a \<times> txn)) \<Rightarrow> db \<Rightarrow> faults \<Rightarrow> (thrown + 'a) \<times> db" where
  "withTransaction fn store fs =
     (case nextFault fs of
        (Some e, _) \<Rightarrow> (Inl (Raw e), store)
      | (None, fs1) \<Rightarrow>
          (case nextFault fs1 of
             (Some e, _) \<Rightarrow> (Inl (Raw e), store)
           | (None, fs2) \<Rightarrow>
               (case fn \<lparr>tdb = store, tfaults = fs2\<rparr> of
                  Inl err \<Rightarrow> (Inl err, store)
                | Inr (result, t) \<Rightarrow>
                    (case nextFault (tfaults t) of
                       (Some e, _) \<Rightarrow> (Inl (Raw e), store)
                     | (None, _) \<Rightarrow> (Inr result, tdb t)))))"

section \<open>Cases: writes\<close>

definition caseParams :: "jsobj \<Rightarrow> (string \<times> jsval) list" where
  \<comment> \<open>the seventeen bound values of the INSERT and of the UPDATE, under the aliases of
      their columns\<close>
  "caseParams c =
     [(''caseNo'', sqlval (jsget c ''caseNo'')),
      (''caseName'', sqlval (jsget c ''caseName'')),
      (''caseTypeItemId'', sqlval (jsget c ''caseTypeItemId'')),
      (''mainOfficerId'', sqlval (jsget c ''mainOfficerId'')),
      (''receivedDate'', sqlval (jsget c ''receivedDate'')),
      (''deadlineDate'', or_null (jsget c ''deadlineDate'')),
      (''description'', or_null (jsget c ''description'')),
      (''status'', or_else (jsget c ''status'') (Str s_zaiban)),
      (''resultItemId'', or_null (jsget c ''resultItemId'')),
      (''transferTarget'', or_null (jsget c ''transferTarget'')),
      (''transferReceiver'', or_null (jsget c ''transferReceiver'')),
      (''transferDate'', or_null (jsget c ''transferDate'')),
      (''transferReturnDate'', or_null (jsget c ''transferReturnDate'')),
      (''transferNote'', or_null (jsget c ''transferNote'')),
      (''archiveLocation'', or_null (jsget c ''archiveLocation'')),
      (''archiveDate'', or_null (jsget c ''archiveDate'')),
      (''closedDate'', or_null (jsget c ''closedDate''))]"

definition insert_case :: "nat \<Rightarrow> jsobj \<Rightarrow> db \<Rightarrow> db" where
  "insert_case newCaseId c s =
     s\<lparr>case_records := case_records s
          @ [(newCaseId, (map_of (caseParams c))(''id'' \<mapsto> Num (int newCaseId)))]\<rparr>"

definition update_case :: "nat \<Rightarrow> jsobj \<Rightarrow> db \<Rightarrow> db" where
  "update_case cid c s =
     s\<lparr>case_records :=
          map (\<lambda>(i, row). if i = cid then (i, row ++ map_of (caseParams c)) else (i, row))
              (case_records s)\<rparr>"

definition delete_case :: "nat \<Rightarrow> db \<Rightarrow> db" where
  \<comment> \<open>Modelled from the spec: the table declarations are not among the sources;
      destruction of a parent cascades to its children by referential design.\<close>
  "delete_case cid s =
     \<lparr>case_records = filter (\<lambda>(i, row). i \<noteq> cid) (case_records s),
      case_officers = filter (\<lambda>r. co_case_id r \<noteq> cid) (case_officers s),
      case_persons = filter (\<lambda>r. cp_case_id r \<noteq> cid) (case_persons s)\<rparr>"

definition delete_officers :: "nat \<Rightarrow> db \<Rightarrow> db" where
  "delete_officers cid s =
     s\<lparr>case_officers := filter (\<lambda>r. co_case_id r \<noteq> cid) (case_officers s)\<rparr>"

definition delete_persons :: "nat \<Rightarrow> db \<Rightarrow> db" where
  "delete_persons cid s =
     s\<lparr>case_persons := filter (\<lambda>r. cp_case_id r \<noteq> cid) (case_persons s)\<rparr>"

definition add_officer :: "officerRow \<Rightarrow> db \<Rightarrow> db" where
  "add_officer r s = s\<lparr>case_officers := case_officers s @ [r]\<rparr>"

definition add_person :: "personRow \<Rightarrow> db \<Rightarrow> db" where
  "add_person r s = s\<lparr>case_persons := case_persons s @ [r]\<rparr>"

definition officerRowOf :: "nat \<Rightarrow> officerIn \<Rightarrow> officerRow" where
  "officerRowOf cid officer =
     \<lparr>co_case_id = cid, co_officer_id = sqlval (officerId officer),
      co_role = or_null (role officer), co_remark = or_null (remark officer)\<rparr>"

definition mainOfficerRow :: "nat \<Rightarrow> jsval \<Rightarrow> officerRow" where
  "mainOfficerRow cid mainOfficerId =
     \<lparr>co_case_id = cid, co_officer_id = sqlval mainOfficerId, co_role = Str role_zhuban,
      co_remark = Null\<rparr>"

definition personRowOf :: "nat \<Rightarrow> personIn \<Rightarrow> personRow" where
  "personRowOf cid person =
     \<lparr>cp_case_id = cid, cp_name = sqlval (p_name person), cp_id_no = or_null (p_idNo person),
      cp_contact = or_null (p_contact person),
      cp_role_item_id = sqlval (p_roleItemId person),
      cp_remark = or_null (p_remark person)\<rparr>"

fun insertOfficers :: "nat \<Rightarrow> officerIn list \<Rightarrow> txn \<Rightarrow> thrown + txn" where
  "insertOfficers cid [] t = Inr t"
| "insertOfficers cid (officer # rest) t =
     (case connQuery (add_officer (officerRowOf cid officer)) t of
        Inl e \<Rightarrow> Inl e
      | Inr t' \<Rightarrow> insertOfficers cid rest t')"

fun insertPersons :: "nat \<Rightarrow> personIn list \<Rightarrow> txn \<Rightarrow> thrown + txn" where
  "insertPersons cid [] t = Inr t"
| "insertPersons cid (person # rest) t =
     (case connQuery (add_person (personRowOf cid person)) t of
        Inl e \<Rightarrow> Inl e
      | Inr t' \<Rightarrow> insertPersons cid rest t')"

definition insertOfficersWithMain ::
    "nat \<Rightarrow> jsval \<Rightarrow> officerIn list \<Rightarrow> txn \<Rightarrow> thrown + txn" where
  \<comment> \<open>the loop over the officers, which also looks for the main officer, then the row
      added for the main officer when the loop did not meet them\<close>
  "insertOfficersWithMain cid mainOfficerId officersList t =
     (case insertOfficers cid officersList t of
        Inl e \<Rightarrow> Inl e
      | Inr t1 \<Rightarrow>
          if \<exists>officer \<in> set officersList. officerId officer = mainOfficerId
          then Inr t1
          else connQuery (add_officer (mainOfficerRow cid mainOfficerId)) t1)"

section \<open>Cases: operations\<close>

text \<open>
  \<open>newCaseId\<close> is the key the storage engine assigns to the inserted case
  (\<open>result.insertId\<close>).
\<close>

definition createCase_tx :: "nat \<Rightarrow> casePayload \<Rightarrow> txn \<Rightarrow> thrown + (nat \<times> txn)" where
  "createCase_tx newCaseId data t =
     (case connQuery (insert_case newCaseId (pfields data)) t of
        Inl e \<Rightarrow> Inl e
      | Inr t1 \<Rightarrow>
          (case insertOfficersWithMain newCaseId (jsget (pfields data) ''mainOfficerId'')
                  (listOf (officers data)) t1 of
             Inl e \<Rightarrow> Inl e
           | Inr t2 \<Rightarrow>
               (case insertPersons newCaseId (listOf (persons data)) t2 of
                  Inl e \<Rightarrow> Inl e
                | Inr t3 \<Rightarrow> Inr (newCaseId, t3))))"

definition caseNoTaken :: "db \<Rightarrow> jsval \<Rightarrow> bool" where
  \<comment> \<open>\<open>SELECT id FROM case_records WHERE case_no = ? LIMIT 1\<close> finds a row\<close>
  "caseNoTaken store caseNo =
     (\<exists>(i, row) \<in> set (case_records store). jsget row ''caseNo'' = caseNo)"

definition caseNoTakenByOther :: "db \<Rightarrow> jsval \<Rightarrow> nat \<Rightarrow> bool" where
  \<comment> \<open>the same with \<open>AND id <> ?\<close>\<close>
  "caseNoTakenByOther store caseNo cid =
     (\<exists>(i, row) \<in> set (case_records store). jsget row ''caseNo'' = caseNo \<and> i \<noteq> cid)"

definition caseForCheck :: "jsobj \<Rightarrow> jsobj" where
  "caseForCheck d =
     [''receivedDate'' \<mapsto> jsget d ''receivedDate'',
      ''deadlineDate'' \<mapsto> jsget d ''deadlineDate'',
      ''status'' \<mapsto> or_else (jsget d ''status'') (Str s_zaiban),
      ''closedDate'' \<mapsto> jsget d ''closedDate'',
      ''resultItemId'' \<mapsto> jsget d ''resultItemId'',
      ''transferTarget'' \<mapsto> jsget d ''transferTarget'',
      ''transferDate'' \<mapsto> jsget d ''transferDate'',
      ''archiveLocation'' \<mapsto> jsget d ''archiveLocation'',
      ''archiveDate'' \<mapsto> jsget d ''archiveDate'']"

definition createCase_try ::
    "nat \<Rightarrow> casePayload \<Rightarrow> db \<Rightarrow> faults \<Rightarrow> (thrown + nat) \<times> db" where
  \<comment> \<open>the body of the \<open>try\<close> block\<close>
  "createCase_try newCaseId data store fs =
     (case (if truthy (jsget (pfields data) ''caseNo'')
            then (case poolQuery fs of
                    Inl e \<Rightarrow> Inl e
                  | Inr fs1 \<Rightarrow>
                      if caseNoTaken store (jsget (pfields data) ''caseNo'')
                      then Inl (App (conflict m_caseNo_exists
                                  (Some (FieldErrors [(''caseNo'', Some m_caseNo_exists)]))))
                      else Inr fs1)
            else Inr fs) of
        Inl e \<Rightarrow> (Inl e, store)
      | Inr fs1 \<Rightarrow> withTransaction (createCase_tx newCaseId data) store fs1)"

definition createCase ::
    "nat \<Rightarrow> casePayload \<Rightarrow> user \<Rightarrow> db \<Rightarrow> faults \<Rightarrow> (thrown + nat) \<times> db" where
  "createCase newCaseId data currentUser store fs =
     (case validateCaseBusinessRules (caseForCheck (pfields data)) of
        Some e \<Rightarrow> (Inl (App e), store)
      | None \<Rightarrow> catchCaseError (createCase_try newCaseId data store fs))"

definition replaceOfficers ::
    "nat \<Rightarrow> jsval \<Rightarrow> officerIn coll \<Rightarrow> txn \<Rightarrow> thrown + txn" where
  \<comment> \<open>the block under \<open>typeof data.officers !== 'undefined'\<close>\<close>
  "replaceOfficers cid mainOfficerId offs t =
     (if offs \<noteq> Missing
      then (case connQuery (delete_officers cid) t of
              Inl e \<Rightarrow> Inl e
            | Inr t' \<Rightarrow> insertOfficersWithMain cid mainOfficerId (listOf offs) t')
      else Inr t)"

definition replacePersons :: "nat \<Rightarrow> personIn coll \<Rightarrow> txn \<Rightarrow> thrown + txn" where
  \<comment> \<open>the block under \<open>typeof data.persons !== 'undefined'\<close>\<close>
  "replacePersons cid pers t =
     (if pers \<noteq> Missing
      then (case connQuery (delete_persons cid) t of
              Inl e \<Rightarrow> Inl e
            | Inr t' \<Rightarrow> insertPersons cid (listOf pers) t')
      else Inr t)"

definition updateCase_tx :: "nat \<Rightarrow> jsobj \<Rightarrow> casePayload \<Rightarrow> txn \<Rightarrow> thrown + (unit \<times> txn)" where
  "updateCase_tx cid mergedCase data t =
     (case connQuery (update_case cid mergedCase) t of
        Inl e \<Rightarrow> Inl e
      | Inr t1 \<Rightarrow>
          (case replaceOfficers cid (jsget mergedCase ''mainOfficerId'') (officers data) t1 of
             Inl e \<Rightarrow> Inl e
           | Inr t2 \<Rightarrow>
               (case replacePersons cid (persons data) t2 of
                  Inl e \<Rightarrow> Inl e
                | Inr t3 \<Rightarrow> Inr ((), t3))))"

definition updateCase_authorized ::
    "nat \<Rightarrow> casePayload \<Rightarrow> jsobj \<Rightarrow> db \<Rightarrow> faults \<Rightarrow> (thrown + nat) \<times> db" where
  \<comment> \<open>what updateCase does once the ownership test has passed\<close>
  "updateCase_authorized cid data existingCase store fs =
     (case (if truthy (jsget (pfields data) ''caseNo'')
               \<and> jsget (pfields data) ''caseNo'' \<noteq> jsget existingCase ''caseNo''
            then (case poolQuery fs of
                    Inl e \<Rightarrow> Inl e
                  | Inr fs1 \<Rightarrow>
                      if caseNoTakenByOther store (jsget (pfields data) ''caseNo'') cid
                      then Inl (App (conflict m_caseNo_exists
                                  (Some (FieldErrors [(''caseNo'', Some m_caseNo_exists)]))))
                      else Inr fs1)
            else Inr fs) of
        Inl e \<Rightarrow> (Inl e, store)
      | Inr fs1 \<Rightarrow>
          (let mergedCase = existingCase ++ pfields data
           in case validateCaseBusinessRules mergedCase of
                Some e \<Rightarrow> (Inl (App e), store)
              | None \<Rightarrow>
                  (case withTransaction (updateCase_tx cid mergedCase data) store fs1 of
                     (Inl e, s) \<Rightarrow> (Inl e, s)
                   | (Inr u, s) \<Rightarrow> (Inr cid, s))))"

definition updateCase_try ::
    "nat \<Rightarrow> casePayload \<Rightarrow> user \<Rightarrow> db \<Rightarrow> faults \<Rightarrow> (thrown + nat) \<times> db" where
  "updateCase_try cid data currentUser store fs =
     (case poolQuery fs of
        Inl e \<Rightarrow> (Inl e, store)
      | Inr fs1 \<Rightarrow>
          (case map_of (case_records store) cid of
             None \<Rightarrow> (Inl (App (notFound m_case_missing None)), store)
           | Some existingCase \<Rightarrow>
               (let isMain = (jsget existingCase ''mainOfficerId'' = uid currentUser);
                    isAdmin = hasPermission currentUser ''case:view_all''
                in if \<not> isMain \<and> \<not> isAdmin
                   then (Inl (App (forbidden m_no_modify None)), store)
                   else updateCase_authorized cid data existingCase store fs1)))"

definition updateCase ::
    "nat \<Rightarrow> casePayload \<Rightarrow> user \<Rightarrow> db \<Rightarrow> faults \<Rightarrow> (thrown + nat) \<times> db" where
  "updateCase cid data currentUser store fs =
     catchCaseError (updateCase_try cid data currentUser store fs)"

definition deleteCase_tx :: "nat \<Rightarrow> txn \<Rightarrow> thrown + (unit \<times> txn)" where
  "deleteCase_tx cid t =
     (case connQuery (delete_case cid) t of Inl e \<Rightarrow> Inl e | Inr t1 \<Rightarrow> Inr ((), t1))"

definition deleteCase_authorized ::
    "nat \<Rightarrow> jsobj \<Rightarrow> db \<Rightarrow> faults \<Rightarrow> (thrown + nat) \<times> db" where
  \<comment> \<open>what deleteCase does once the ownership test has passed\<close>
  "deleteCase_authorized cid record store fs =
     (if jsget record ''status'' \<noteq> Str s_zaiban
      then (Inl (App (validationError m_delete_only_zaiban
                   (Some (FieldErrors [(''status'', Some m_delete_only_zaiban)])))), store)
      else (case withTransaction (deleteCase_tx cid) store fs of
              (Inl e, s) \<Rightarrow> (Inl e, s)
            | (Inr u, s) \<Rightarrow> (Inr cid, s)))"

definition deleteCase_try :: "nat \<Rightarrow> user \<Rightarrow> db \<Rightarrow> faults \<Rightarrow> (thrown + nat) \<times> db" where
  "deleteCase_try cid currentUser store fs =
     (case poolQuery fs of
        Inl e \<Rightarrow> (Inl e, store)
      | Inr fs1 \<Rightarrow>
          (case map_of (case_records store) cid of
             None \<Rightarrow> (Inl (App (notFound m_case_missing None)), store)
           | Some record \<Rightarrow>
               (let isMain = (jsget record ''mainOfficerId'' = uid currentUser);
                    isAdmin = hasPermission currentUser ''case:view_all''
                in if \<not> isMain \<and> \<not> isAdmin
                   then (Inl (App (forbidden m_no_delete None)), store)
                   else deleteCase_authorized cid record store fs1)))"

definition deleteCase :: "nat \<Rightarrow> user \<Rightarrow> db \<Rightarrow> faults \<Rightarrow> (thrown + nat) \<times> db" where
  "deleteCase cid currentUser store fs = catchCaseError (deleteCase_try cid currentUser store fs)"

record caseDetail =
  d_case :: jsobj
  d_officers :: "officerRow list"
  d_persons :: "personRow list"

definition sql_eq :: "jsval \<Rightarrow> jsval \<Rightarrow> bool" where
  \<comment> \<open>\<open>column = ?\<close>: NULL is equal to nothing\<close>
  "sql_eq a b = (a \<noteq> Null \<and> b \<noteq> Null \<and> a = b)"

definition getCaseDetail_authorized ::
    "nat \<Rightarrow> jsobj \<Rightarrow> db \<Rightarrow> faults \<Rightarrow> thrown + caseDetail" where
  \<comment> \<open>what getCaseDetail does once the access test has passed (the names joined from
      other tables are left out of the case row)\<close>
  "getCaseDetail_authorized cid caseRow store fs =
     (case poolQuery fs of
        Inl e \<Rightarrow> Inl e
      | Inr fs1 \<Rightarrow>
          (case poolQuery fs1 of
             Inl e \<Rightarrow> Inl e
           | Inr fs2 \<Rightarrow>
               Inr \<lparr>d_case = caseRow,
                    d_officers = filter (\<lambda>r. co_case_id r = cid) (case_officers store),
                    d_persons = filter (\<lambda>r. cp_case_id r = cid) (case_persons store)\<rparr>))"

definition getCaseDetail :: "nat \<Rightarrow> user \<Rightarrow> db \<Rightarrow> faults \<Rightarrow> thrown + caseDetail" where
  "getCaseDetail cid currentUser store fs =
     (case poolQuery fs of
        Inl e \<Rightarrow> Inl e
      | Inr fs1 \<Rightarrow>
          (case map_of (case_records store) cid of
             None \<Rightarrow> Inl (App (notFound m_case_missing None))
           | Some caseRow \<Rightarrow>
               if \<not> hasPermission currentUser ''case:view_all''
               then (if jsget caseRow ''mainOfficerId'' = uid currentUser
                     then getCaseDetail_authorized cid caseRow store fs1
                     else (case poolQuery fs1 of
                             Inl e \<Rightarrow> Inl e
                           | Inr fs2 \<Rightarrow>
                               if \<exists>r \<in> set (case_officers store).
                                    co_case_id r = cid
                                    \<and> sql_eq (co_officer_id r) (sqlval (uid currentUser))
                               then getCaseDetail_authorized cid caseRow store fs2
                               else Inl (App (forbidden m_no_view None))))
               else getCaseDetail_authorized cid caseRow store fs1))"

section \<open>Partial updates of places and inspections (modules/nineSmall/service.js)\<close>

text \<open>
  \<open>existing\<close> is the stored row as \<open>SELECT *\<close> returns it, with the names of the
  columns as keys; \<open>data\<close> is the validated patch.
\<close>

definition defined_or :: "jsval \<Rightarrow> jsval \<Rightarrow> jsval" where
  \<comment> \<open>\<open>a !== undefined ? a : b\<close>\<close>
  "defined_or a b = (if a \<noteq> Undefined then a else b)"

definition mergePlace :: "jsobj \<Rightarrow> jsobj \<Rightarrow> jsobj" where
  \<comment> \<open>the object \<open>merged\<close> of updatePlace\<close>
  "mergePlace data existing =
     [''name'' \<mapsto> nullish (jsget data ''name'') (jsget existing ''name''),
      ''address'' \<mapsto> nullish (jsget data ''address'') (jsget existing ''address''),
      ''communityId'' \<mapsto>
         defined_or (jsget data ''communityId'') (jsget existing ''community_id''),
      ''type'' \<mapsto> nullish (jsget data ''type'') (jsget existing ''type''),
      ''typeItemId'' \<mapsto>
         defined_or (jsget data ''typeItemId'') (jsget existing ''type_item_id''),
      ''gridName'' \<mapsto> nullish (jsget data ''gridName'') (jsget existing ''grid_name''),
      ''principalName'' \<mapsto>
         nullish (jsget data ''principalName'') (jsget existing ''principal_name''),
      ''contactPhone'' \<mapsto>
         nullish (jsget data ''contactPhone'') (jsget existing ''contact_phone''),
      ''remark'' \<mapsto> nullish (jsget data ''remark'') (jsget existing ''remark'')]"

definition placeParams :: "jsobj \<Rightarrow> (string \<times> jsval) list" where
  \<comment> \<open>the values bound to the UPDATE of updatePlace, under the names of their columns\<close>
  "placeParams merged =
     [(''name'', sqlval (jsget merged ''name'')),
      (''address'', sqlval (jsget merged ''address'')),
      (''community_id'', nullish (jsget merged ''communityId'') Null),
      (''type'', nullish (jsget merged ''type'') Null),
      (''type_item_id'', nullish (jsget merged ''typeItemId'') Null),
      (''grid_name'', nullish (jsget merged ''gridName'') Null),
      (''principal_name'', nullish (jsget merged ''principalName'') Null),
      (''contact_phone'', nullish (jsget merged ''contactPhone'') Null),
      (''remark'', nullish (jsget merged ''remark'') Null)]"

definition mergeInspection :: "jsobj \<Rightarrow> jsobj \<Rightarrow> jsobj" where
  \<comment> \<open>the object \<open>merged\<close> of updateInspection\<close>
  "mergeInspection data existing =
     [''placeId'' \<mapsto> defined_or (jsget data ''placeId'') (jsget existing ''place_id''),
      ''inspectDate'' \<mapsto>
         defined_or (jsget data ''inspectDate'') (jsget existing ''inspect_date''),
      ''inspectorOfficerId'' \<mapsto>
         defined_or (jsget data ''inspectorOfficerId'') (jsget existing ''inspector_officer_id''),
      ''inspectorName'' \<mapsto>
         defined_or (jsget data ''inspectorName'') (jsget existing ''inspector_name''),
      ''description'' \<mapsto>
         defined_or (jsget data ''description'') (jsget existing ''description''),
      ''hasHiddenDanger'' \<mapsto>
         (case jsget data ''hasHiddenDanger'' of
            Bool b \<Rightarrow> Bool b
          | _ \<Rightarrow> Bool (jsget existing ''has_hidden_danger'' = Num 1)),
      ''rectificationAdvice'' \<mapsto>
         defined_or (jsget data ''rectificationAdvice'') (jsget existing ''rectification_advice''),
      ''rectificationStatusId'' \<mapsto>
         defined_or (jsget data ''rectificationStatusId'')
           (jsget existing ''rectification_status_id''),
      ''rectifiedDate'' \<mapsto>
         defined_or (jsget data ''rectifiedDate'') (jsget existing ''rectified_date'')]"

definition ex_place :: jsobj where
  "ex_place =
     [''id'' \<mapsto> Num 4, ''name'' \<mapsto> Str ''corner shop'', ''address'' \<mapsto> Str ''12 Main St'',
      ''community_id'' \<mapsto> Num 2, ''type'' \<mapsto> Str ''shop'', ''type_item_id'' \<mapsto> Num 5,
      ''grid_name'' \<mapsto> Str ''G1'', ''principal_name'' \<mapsto> Str ''Wang'',
      ''contact_phone'' \<mapsto> Str ''555'', ''remark'' \<mapsto> Str ''old note'']"

section \<open>Notions used to state the properties\<close>

definition reportedKeys :: "AppError \<Rightarrow> string list" where
  \<comment> \<open>the keys of the field-keyed detail map that carry a message (a key whose value is
      \<open>undefined\<close> is dropped when the response is written as JSON)\<close>
  "reportedKeys e =
     (case details e of
        Some (FieldErrors kvs) \<Rightarrow> map fst (filter (\<lambda>kv. snd kv \<noteq> None) kvs)
      | _ \<Rightarrow> [])"

definition statusOf :: "jsobj \<Rightarrow> jsval" where
  \<comment> \<open>the status of a record, a record without one being in progress\<close>
  "statusOf c = (if jsget c ''status'' = Undefined then Str s_zaiban else jsget c ''status'')"

definition deadlineViolated :: "jsobj \<Rightarrow> bool" where
  \<comment> \<open>both dates given and the deadline before the date of reception\<close>
  "deadlineViolated c =
     (truthy (jsget c ''deadlineDate'') \<and> truthy (jsget c ''receivedDate'')
      \<and> js_lt (jsget c ''deadlineDate'') (jsget c ''receivedDate''))"

definition missingRequired :: "jsobj \<Rightarrow> string list" where
  \<comment> \<open>the fields that the status of the record requires and the record does not have\<close>
  "missingRequired c =
     (if statusOf c = Str s_yijie
      then (if truthy (jsget c ''closedDate'') then [] else [''closedDate''])
           @ (if isNil (jsget c ''resultItemId'') then [''resultItemId''] else [])
      else if statusOf c = Str s_yijiao
      then (if truthy (jsget c ''transferTarget'') then [] else [''transferTarget''])
           @ (if truthy (jsget c ''transferDate'') then [] else [''transferDate''])
      else if statusOf c = Str s_cundang
      then (if truthy (jsget c ''archiveLocation'') then [] else [''archiveLocation''])
           @ (if truthy (jsget c ''archiveDate'') then [] else [''archiveDate''])
      else [])"

definition officerRowsFor :: "nat \<Rightarrow> jsval \<Rightarrow> officerIn list \<Rightarrow> officerRow list" where
  \<comment> \<open>the rows of a supplied list of officers, followed by a row for the main officer
      when no supplied officer has their id\<close>
  "officerRowsFor cid mainOfficerId xs =
     map (officerRowOf cid) xs
     @ (if \<exists>officer \<in> set xs. officerId officer = mainOfficerId then []
        else [mainOfficerRow cid mainOfficerId])"

definition createWrites :: "nat \<Rightarrow> casePayload \<Rightarrow> db \<Rightarrow> db" where
  \<comment> \<open>all the writes of a case creation together\<close>
  "createWrites newCaseId data s =
     \<lparr>case_records = case_records s
         @ [(newCaseId, (map_of (caseParams (pfields data)))(''id'' \<mapsto> Num (int newCaseId)))],
      case_officers = case_officers s
         @ officerRowsFor newCaseId (jsget (pfields data) ''mainOfficerId'')
             (listOf (officers data)),
      case_persons = case_persons s @ map (personRowOf newCaseId) (listOf (persons data))\<rparr>"

definition updateWrites :: "nat \<Rightarrow> jsobj \<Rightarrow> casePayload \<Rightarrow> db \<Rightarrow> db" where
  \<comment> \<open>all the writes of a case update together, for the merged record \<open>m\<close>\<close>
  "updateWrites cid m data s =
     \<lparr>case_records = case_records (update_case cid m s),
      case_officers =
        (if officers data = Missing then case_officers s
         else filter (\<lambda>r. co_case_id r \<noteq> cid) (case_officers s)
              @ officerRowsFor cid (jsget m ''mainOfficerId'') (listOf (officers data))),
      case_persons =
        (if persons data = Missing then case_persons s
         else filter (\<lambda>r. cp_case_id r \<noteq> cid) (case_persons s)
              @ map (personRowOf cid) (listOf (persons data)))\<rparr>"

definition takesPart :: "db \<Rightarrow> nat \<Rightarrow> user \<Rightarrow> bool" where
  \<comment> \<open>the caller is among the officers of the case\<close>
  "takesPart store cid u =
     (\<exists>r \<in> set (case_officers store).
        co_case_id r = cid \<and> sql_eq (co_officer_id r) (sqlval (uid u)))"

section \<open>Example data\<close>

definition ex_user7 :: user where
  "ex_user7 = \<lparr>uid = Num 7, u_perms = Some [''case:create'', ''case:view_my'']\<rparr>"

definition ex_user8 :: user where
  "ex_user8 = \<lparr>uid = Num 8, u_perms = Some [''case:create'', ''case:view_my'']\<rparr>"

definition ex_user9 :: user where
  "ex_user9 = \<lparr>uid = Num 9, u_perms = Some [''case:create'', ''case:view_my'']\<rparr>"

definition ex_fields :: jsobj where
  "ex_fields =
     [''caseNo'' \<mapsto> Str ''C-001'', ''caseName'' \<mapsto> Str ''theft'',
      ''caseTypeItemId'' \<mapsto> Num 3, ''mainOfficerId'' \<mapsto> Num 7,
      ''status'' \<mapsto> Str s_zaiban, ''receivedDate'' \<mapsto> Str ''2024-01-01'']"

definition ex_create :: casePayload where
  \<comment> \<open>the creation of the specification's example: main officer 7, one officer with
      id 7 and no role\<close>
  "ex_create =
     \<lparr>pfields = ex_fields,
      officers = Items [\<lparr>officerId = Num 7, role = Undefined, remark = Undefined\<rparr>],
      persons = Items []\<rparr>"

definition ex_empty :: db where
  "ex_empty = \<lparr>case_records = [], case_officers = [], case_persons = []\<rparr>"

definition ex_row1 :: jsobj where
  "ex_row1 = (map_of (caseParams ex_fields))(''id'' \<mapsto> Num 1)"

definition ex_db :: db where
  \<comment> \<open>case 1 of officer 7, with officer 8 taking part\<close>
  "ex_db =
     \<lparr>case_records = [(1, ex_row1)],
      case_officers =
        [\<lparr>co_case_id = 1, co_officer_id = Num 7, co_role = Null, co_remark = Null\<rparr>,
         \<lparr>co_case_id = 1, co_officer_id = Num 8, co_role = Null, co_remark = Null\<rparr>],
      case_persons = []\<rparr>"

definition ex_close :: casePayload where
  \<comment> \<open>the update of the specification's example: status closed, nothing else\<close>
  "ex_close = \<lparr>pfields = [''status'' \<mapsto> Str s_yijie], officers = Missing, persons = Missing\<rparr>"

definition ex_no_officers :: casePayload where
  \<comment> \<open>an update that supplies the empty list of officers and nothing else\<close>
  "ex_no_officers = \<lparr>pfields = Map.empty, officers = Items [], persons = Missing\<rparr>"

definition ex_late :: jsobj where
  \<comment> \<open>closed, without closing date and result, and with a deadline before the reception\<close>
  "ex_late =
     [''receivedDate'' \<mapsto> Str ''2024-02-01'', ''deadlineDate'' \<mapsto> Str ''2024-01-01'',
      ''status'' \<mapsto> Str s_yijie]"

definition ex_late_create :: casePayload where
  "ex_late_create = \<lparr>pfields = ex_late, officers = Missing, persons = Missing\<rparr>"

definition ex_dup :: rawError where
  \<comment> \<open>the driver's error for a duplicate key\<close>
  "ex_dup =
     \<lparr>rname = ''Error'',
      rmessage = ''Duplicate entry for key uk_case_no'',
      rstack = ''Error: Duplicate entry at Packet.asError'',
      rcode = Some ''ER_DUP_ENTRY'',
      sqlMessage = Some ''Duplicate entry for key uk_case_no'',
      isJoi = False, joiDetails = None\<rparr>"

definition ex_auth :: authdb where
  \<comment> \<open>no officer registered yet\<close>
  "ex_auth =
     \<lparr>police_officers = [], roles = [], officer_roles = [], permissions = [],
      role_permissions = []\<rparr>"

definition ex_row2 :: jsobj where
  "ex_row2 =
     ex_row1(''id'' \<mapsto> Num 2, ''caseNo'' \<mapsto> Str ''C-002'', ''mainOfficerId'' \<mapsto> Num 8)"

definition ex_db2 :: db where
  \<comment> \<open>case 1 of officer 7 and case 2 of officer 8, each with officers and persons\<close>
  "ex_db2 =
     \<lparr>case_records = [(1, ex_row1), (2, ex_row2)],
      case_officers =
        [\<lparr>co_case_id = 1, co_officer_id = Num 7, co_role = Null, co_remark = Null\<rparr>,
         \<lparr>co_case_id = 2, co_officer_id = Num 8, co_role = Str ''lead'', co_remark = Null\<rparr>,
         \<lparr>co_case_id = 1, co_officer_id = Num 8, co_role = Null, co_remark = Null\<rparr>],
      case_persons =
        [\<lparr>cp_case_id = 1, cp_name = Str ''Chen'', cp_id_no = Null, cp_contact = Null,
          cp_role_item_id = Num 3, cp_remark = Null\<rparr>,
         \<lparr>cp_case_id = 2, cp_name = Str ''Zhao'', cp_id_no = Str ''220102'', cp_contact = Null,
          cp_role_item_id = Num 3, cp_remark = Null\<rparr>]\<rparr>"

definition ex_replace :: casePayload where
  \<comment> \<open>an update of the name that supplies two officers and two persons\<close>
  "ex_replace =
     \<lparr>pfields = [''caseName'' \<mapsto> Str ''burglary''],
      officers =
        Items [\<lparr>officerId = Num 8, role = Str ''assist'', remark = Str ''night shift''\<rparr>,
               \<lparr>officerId = Num 7, role = Str [], remark = Null\<rparr>],
      persons =
        Items [\<lparr>p_name = Str ''Zhang'', p_idNo = Str ''110101'', p_contact = Str [],
                p_roleItemId = Num 4, p_remark = Str ''saw it''\<rparr>,
               \<lparr>p_name = Str ''Liu'', p_idNo = Undefined, p_contact = Str ''555'',
                p_roleItemId = Num 5, p_remark = Undefined\<rparr>]\<rparr>"

definition ex_rename :: casePayload where
  \<comment> \<open>an update of the name that has neither child collection\<close>
  "ex_rename =
     \<lparr>pfields = [''caseName'' \<mapsto> Str ''burglary''], officers = Missing, persons = Missing\<rparr>"

definition ex_main_with_role :: casePayload where
  \<comment> \<open>an update that supplies the main officer, with a role of their own\<close>
  "ex_main_with_role =
     \<lparr>pfields = [''caseName'' \<mapsto> Str ''burglary''],
      officers = Items [\<lparr>officerId = Num 7, role = Str ''lead'', remark = Null\<rparr>],
      persons = Missing\<rparr>"

definition ex_without_main :: casePayload where
  \<comment> \<open>an update that supplies one officer who is not the main officer\<close>
  "ex_without_main =
     \<lparr>pfields = [''caseName'' \<mapsto> Str ''burglary''],
      officers = Items [\<lparr>officerId = Num 8, role = Str ''assist'', remark = Undefined\<rparr>],
      persons = Missing\<rparr>"

definition ex_create_team :: casePayload where
  \<comment> \<open>a creation with main officer 7 that supplies officer 9 alone\<close>
  "ex_create_team =
     \<lparr>pfields = ex_fields(''caseNo'' \<mapsto> Str ''C-003''),
      officers = Items [\<lparr>officerId = Num 9, role = Str ''assist'', remark = Str ''on loan''\<rparr>],
      persons = Items []\<rparr>"

section \<open>Storage calls that are not rejected\<close>

lemma poolQuery_quiet:
  "set fs \<subseteq> {None} \<Longrightarrow> \<exists>fs'. poolQuery fs = Inr fs' \<and> set fs' \<subseteq> {None}"
  by (cases fs) (auto simp: poolQuery_def)

section \<open>Properties of the business rules\<close>

lemma status_literals_distinct:
  "s_yijie \<noteq> s_zaiban" "s_yijiao \<noteq> s_zaiban" "s_cundang \<noteq> s_zaiban"
  "s_yijie \<noteq> s_yijiao" "s_yijie \<noteq> s_cundang" "s_yijiao \<noteq> s_cundang"
  "s_zaiban \<noteq> s_yijie" "s_zaiban \<noteq> s_yijiao" "s_zaiban \<noteq> s_cundang"
  "s_yijiao \<noteq> s_yijie" "s_cundang \<noteq> s_yijie" "s_cundang \<noteq> s_yijiao"
  by (simp_all add: s_zaiban_def s_yijie_def s_yijiao_def s_cundang_def)

lemma status_literals_nonempty:
  "s_yijie \<noteq> []" "s_zaiban \<noteq> []" "s_yijiao \<noteq> []" "s_cundang \<noteq> []"
  by (simp_all add: s_zaiban_def s_yijie_def s_yijiao_def s_cundang_def)

lemma validate_unfold:
  "validateCaseBusinessRules c =
     (if deadlineViolated c
      then Some (validationError m_deadline_early
                   (Some (FieldErrors [(''deadlineDate'', Some m_deadline_field)])))
      else if statusOf c = Str s_yijie
              \<and> (\<not> truthy (jsget c ''closedDate'') \<or> isNil (jsget c ''resultItemId''))
      then Some (validationError m_closed_needs
             (Some (FieldErrors
                [(''closedDate'',
                    if \<not> truthy (jsget c ''closedDate'') then Some m_closedDate_req else None),
                 (''resultItemId'',
                    if isNil (jsget c ''resultItemId'') then Some m_result_req else None)])))
      else if statusOf c = Str s_yijiao
              \<and> (\<not> truthy (jsget c ''transferTarget'') \<or> \<not> truthy (jsget c ''transferDate''))
      then Some (validationError m_transfer_needs
             (Some (FieldErrors
                [(''transferTarget'',
                    if \<not> truthy (jsget c ''transferTarget'')
                    then Some m_transferTarget_req else None),
                 (''transferDate'',
                    if \<not> truthy (jsget c ''transferDate'')
                    then Some m_transferDate_req else None)])))
      else if statusOf c = Str s_cundang
              \<and> (\<not> truthy (jsget c ''archiveLocation'') \<or> \<not> truthy (jsget c ''archiveDate''))
      then Some (validationError m_archive_needs
             (Some (FieldErrors
                [(''archiveLocation'',
                    if \<not> truthy (jsget c ''archiveLocation'')
                    then Some m_archiveLocation_req else None),
                 (''archiveDate'',
                    if \<not> truthy (jsget c ''archiveDate'')
                    then Some m_archiveDate_req else None)])))
      else None)"
  unfolding validateCaseBusinessRules_def deadlineViolated_def statusOf_def Let_def
  by (rule refl)

lemma reportedKeys_pair:
  "reportedKeys (validationError m (Some (FieldErrors [(k1, v1), (k2, v2)])))
     = (if v1 = None then [] else [k1]) @ (if v2 = None then [] else [k2])"
  by (simp add: reportedKeys_def validationError_def mkAppError_def)

lemma validationError_code:
  "errorCode (validationError m d) = VALIDATION_ERROR" "status (validationError m d) = 400"
  by (simp_all add: validationError_def mkAppError_def)

lemma validate_status_rule:
  assumes "\<not> deadlineViolated c" and "missingRequired c \<noteq> []"
  shows "\<exists>e. validateCaseBusinessRules c = Some e \<and> errorCode e = VALIDATION_ERROR
             \<and> status e = 400 \<and> reportedKeys e = missingRequired c"
proof -
  consider (closed) "statusOf c = Str s_yijie"
    | (moved) "statusOf c = Str s_yijiao"
    | (archived) "statusOf c = Str s_cundang"
    | (other) "statusOf c \<noteq> Str s_yijie" "statusOf c \<noteq> Str s_yijiao"
        "statusOf c \<noteq> Str s_cundang"
    by blast
  then show ?thesis
  proof cases
    case closed
    from assms(2) closed
    have m: "\<not> truthy (jsget c ''closedDate'') \<or> isNil (jsget c ''resultItemId'')"
      by (simp add: missingRequired_def split: if_splits)
    show ?thesis
      apply (subst validate_unfold)
      apply (simp only: assms(1) closed m if_False if_True simp_thms)
      apply (simp add: reportedKeys_pair validationError_code missingRequired_def closed)
      done
  next
    case moved
    from assms(2) moved
    have m: "\<not> truthy (jsget c ''transferTarget'') \<or> \<not> truthy (jsget c ''transferDate'')"
      by (simp add: missingRequired_def status_literals_distinct split: if_splits)
    show ?thesis
      apply (subst validate_unfold)
      apply (simp only: assms(1) moved m if_False if_True simp_thms jsval.inject
               status_literals_distinct)
      apply (simp add: reportedKeys_pair validationError_code missingRequired_def moved
               status_literals_distinct)
      done
  next
    case archived
    from assms(2) archived
    have m: "\<not> truthy (jsget c ''archiveLocation'') \<or> \<not> truthy (jsget c ''archiveDate'')"
      by (simp add: missingRequired_def status_literals_distinct split: if_splits)
    show ?thesis
      apply (subst validate_unfold)
      apply (simp only: assms(1) archived m if_False if_True simp_thms jsval.inject
               status_literals_distinct)
      apply (simp add: reportedKeys_pair validationError_code missingRequired_def archived
               status_literals_distinct)
      done
  next
    case other
    with assms(2) show ?thesis by (simp add: missingRequired_def)
  qed
qed

lemma validate_passes:
  assumes "\<not> deadlineViolated c" and "missingRequired c = []"
  shows "validateCaseBusinessRules c = None"
proof -
  have a: "\<not> (statusOf c = Str s_yijie
              \<and> (\<not> truthy (jsget c ''closedDate'') \<or> isNil (jsget c ''resultItemId'')))"
    using assms(2) by (auto simp: missingRequired_def split: if_splits)
  have b: "\<not> (statusOf c = Str s_yijiao
              \<and> (\<not> truthy (jsget c ''transferTarget'') \<or> \<not> truthy (jsget c ''transferDate'')))"
    using assms(2) by (auto simp: missingRequired_def status_literals_distinct split: if_splits)
  have d: "\<not> (statusOf c = Str s_cundang
              \<and> (\<not> truthy (jsget c ''archiveLocation'') \<or> \<not> truthy (jsget c ''archiveDate'')))"
    using assms(2) by (auto simp: missingRequired_def status_literals_distinct split: if_splits)
  show ?thesis
    by (subst validate_unfold) (simp only: assms(1) a b d if_False)
qed

lemma validate_deadline_first:
  assumes "deadlineViolated c"
  shows "validateCaseBusinessRules c =
           Some (validationError m_deadline_early
                   (Some (FieldErrors [(''deadlineDate'', Some m_deadline_field)])))"
  by (subst validate_unfold) (simp only: assms if_True)

section \<open>Properties of the transactions\<close>

lemma bind_InrE:
  assumes "(case x of Inl e \<Rightarrow> Inl e | Inr t \<Rightarrow> f t) = Inr r"
  obtains t where "x = Inr t" and "f t = Inr r"
  using assms by (cases x) auto

lemma connQuery_Inr:
  "connQuery f t = Inr t' \<Longrightarrow> tdb t' = f (tdb t)"
  by (cases "tfaults t"; cases "hd (tfaults t)") (auto simp: connQuery_def split: option.splits)

lemma connQuery_quiet:
  "set (tfaults t) \<subseteq> {None} \<Longrightarrow>
     \<exists>t'. connQuery f t = Inr t' \<and> tdb t' = f (tdb t) \<and> set (tfaults t') \<subseteq> {None}"
  by (cases "tfaults t") (auto simp: connQuery_def)

lemma insertOfficers_Inr:
  "insertOfficers cid xs t = Inr t' \<Longrightarrow>
     tdb t' = (tdb t)\<lparr>case_officers := case_officers (tdb t) @ map (officerRowOf cid) xs\<rparr>"
proof (induction xs arbitrary: t)
  case Nil
  then show ?case by simp
next
  case (Cons x xs)
  from Cons.prems obtain t1 where
    q: "connQuery (add_officer (officerRowOf cid x)) t = Inr t1"
    and r: "insertOfficers cid xs t1 = Inr t'"
    by (auto split: sum.splits)
  from connQuery_Inr [OF q] Cons.IH [OF r] show ?case
    by (simp add: add_officer_def)
qed

lemma insertOfficers_quiet:
  "set (tfaults t) \<subseteq> {None} \<Longrightarrow>
     \<exists>t'. insertOfficers cid xs t = Inr t' \<and> set (tfaults t') \<subseteq> {None}"
proof (induction xs arbitrary: t)
  case Nil
  then show ?case by simp
next
  case (Cons x xs)
  from connQuery_quiet [OF Cons.prems, of "add_officer (officerRowOf cid x)"]
  obtain t1 where q: "connQuery (add_officer (officerRowOf cid x)) t = Inr t1"
    and s: "set (tfaults t1) \<subseteq> {None}" by blast
  from Cons.IH [OF s] q show ?case by simp
qed

lemma insertPersons_Inr:
  "insertPersons cid xs t = Inr t' \<Longrightarrow>
     tdb t' = (tdb t)\<lparr>case_persons := case_persons (tdb t) @ map (personRowOf cid) xs\<rparr>"
proof (induction xs arbitrary: t)
  case Nil
  then show ?case by simp
next
  case (Cons x xs)
  from Cons.prems obtain t1 where
    q: "connQuery (add_person (personRowOf cid x)) t = Inr t1"
    and r: "insertPersons cid xs t1 = Inr t'"
    by (auto split: sum.splits)
  from connQuery_Inr [OF q] Cons.IH [OF r] show ?case
    by (simp add: add_person_def)
qed

lemma insertPersons_quiet:
  "set (tfaults t) \<subseteq> {None} \<Longrightarrow>
     \<exists>t'. insertPersons cid xs t = Inr t' \<and> set (tfaults t') \<subseteq> {None}"
proof (induction xs arbitrary: t)
  case Nil
  then show ?case by simp
next
  case (Cons x xs)
  from connQuery_quiet [OF Cons.prems, of "add_person (personRowOf cid x)"]
  obtain t1 where q: "connQuery (add_person (personRowOf cid x)) t = Inr t1"
    and s: "set (tfaults t1) \<subseteq> {None}" by blast
  from Cons.IH [OF s] q show ?case by simp
qed

lemma insertOfficersWithMain_Inr:
  assumes "insertOfficersWithMain cid main xs t = Inr t'"
  shows "tdb t' = (tdb t)\<lparr>case_officers := case_officers (tdb t) @ officerRowsFor cid main xs\<rparr>"
proof -
  from assms obtain t1 where a: "insertOfficers cid xs t = Inr t1"
    and b: "(if \<exists>officer \<in> set xs. officerId officer = main then Inr t1
             else connQuery (add_officer (mainOfficerRow cid main)) t1) = Inr t'"
    by (auto simp: insertOfficersWithMain_def split: sum.splits)
  show ?thesis
  proof (cases "\<exists>officer \<in> set xs. officerId officer = main")
    case True
    with b have "t' = t1" by simp
    with insertOfficers_Inr [OF a] True show ?thesis by (simp add: officerRowsFor_def)
  next
    case False
    with b have "connQuery (add_officer (mainOfficerRow cid main)) t1 = Inr t'" by simp
    from connQuery_Inr [OF this] insertOfficers_Inr [OF a] False show ?thesis
      by (simp add: officerRowsFor_def add_officer_def)
  qed
qed

lemma insertOfficersWithMain_quiet:
  assumes "set (tfaults t) \<subseteq> {None}"
  shows "\<exists>t'. insertOfficersWithMain cid main xs t = Inr t' \<and> set (tfaults t') \<subseteq> {None}"
proof -
  from insertOfficers_quiet [OF assms] obtain t1 where a: "insertOfficers cid xs t = Inr t1"
    and s: "set (tfaults t1) \<subseteq> {None}" by blast
  from connQuery_quiet [OF s, of "add_officer (mainOfficerRow cid main)"] a s show ?thesis
    by (auto simp: insertOfficersWithMain_def)
qed

lemma createCase_tx_Inr:
  assumes "createCase_tx n data t = Inr (v, t')"
  shows "v = n \<and> tdb t' = createWrites n data (tdb t)"
proof -
  from assms [unfolded createCase_tx_def] obtain t1 where
    a: "connQuery (insert_case n (pfields data)) t = Inr t1"
    and r1: "(case insertOfficersWithMain n (jsget (pfields data) ''mainOfficerId'')
                     (listOf (officers data)) t1 of
                Inl e \<Rightarrow> Inl e
              | Inr t2 \<Rightarrow>
                  (case insertPersons n (listOf (persons data)) t2 of
                     Inl e \<Rightarrow> Inl e
                   | Inr t3 \<Rightarrow> Inr (n, t3))) = Inr (v, t')"
    by (rule bind_InrE)
  from r1 obtain t2 where
    b: "insertOfficersWithMain n (jsget (pfields data) ''mainOfficerId'')
              (listOf (officers data)) t1 = Inr t2"
    and r2: "(case insertPersons n (listOf (persons data)) t2 of
                Inl e \<Rightarrow> Inl e
              | Inr t3 \<Rightarrow> Inr (n, t3)) = Inr (v, t')"
    by (rule bind_InrE)
  from r2 obtain t3 where c: "insertPersons n (listOf (persons data)) t2 = Inr t3"
    and r3: "Inr (n, t3) = (Inr (v, t') :: thrown + nat \<times> txn)"
    by (rule bind_InrE)
  from r3 have v: "v = n" and t3: "t3 = t'" by simp_all
  have 1: "tdb t1 = insert_case n (pfields data) (tdb t)" by (rule connQuery_Inr [OF a])
  have 2: "tdb t2 = (tdb t1)\<lparr>case_officers := case_officers (tdb t1)
             @ officerRowsFor n (jsget (pfields data) ''mainOfficerId'')
                 (listOf (officers data))\<rparr>"
    by (rule insertOfficersWithMain_Inr [OF b])
  have 3: "tdb t' = (tdb t2)\<lparr>case_persons := case_persons (tdb t2)
             @ map (personRowOf n) (listOf (persons data))\<rparr>"
    using insertPersons_Inr [OF c] t3 by simp
  show ?thesis
    unfolding 3 2 1 by (simp add: v createWrites_def insert_case_def)
qed

lemma createCase_tx_quiet:
  assumes "set (tfaults t) \<subseteq> {None}"
  shows "\<exists>t'. createCase_tx n data t = Inr (n, t') \<and> set (tfaults t') \<subseteq> {None}"
proof -
  from connQuery_quiet [OF assms, of "insert_case n (pfields data)"] obtain t1 where
    a: "connQuery (insert_case n (pfields data)) t = Inr t1" and s1: "set (tfaults t1) \<subseteq> {None}"
    by blast
  from insertOfficersWithMain_quiet [OF s1] obtain t2 where
    b: "insertOfficersWithMain n (jsget (pfields data) ''mainOfficerId'')
              (listOf (officers data)) t1 = Inr t2" and s2: "set (tfaults t2) \<subseteq> {None}"
    by blast
  from insertPersons_quiet [OF s2] obtain t3 where
    c: "insertPersons n (listOf (persons data)) t2 = Inr t3" and s3: "set (tfaults t3) \<subseteq> {None}"
    by blast
  from a b c s3 show ?thesis by (simp add: createCase_tx_def)
qed

lemma replaceOfficers_Inr:
  assumes "replaceOfficers cid main offs t = Inr t'"
  shows "tdb t' = (tdb t)\<lparr>case_officers :=
             (if offs = Missing then case_officers (tdb t)
              else filter (\<lambda>r. co_case_id r \<noteq> cid) (case_officers (tdb t))
                   @ officerRowsFor cid main (listOf offs))\<rparr>"
proof (cases "offs = Missing")
  case True
  with assms show ?thesis by (simp add: replaceOfficers_def)
next
  case False
  with assms obtain u where d: "connQuery (delete_officers cid) t = Inr u"
    and i: "insertOfficersWithMain cid main (listOf offs) u = Inr t'"
    by (auto simp: replaceOfficers_def split: sum.splits)
  from connQuery_Inr [OF d] insertOfficersWithMain_Inr [OF i] False show ?thesis
    by (simp add: delete_officers_def)
qed

lemma replaceOfficers_quiet:
  assumes "set (tfaults t) \<subseteq> {None}"
  shows "\<exists>t'. replaceOfficers cid main offs t = Inr t' \<and> set (tfaults t') \<subseteq> {None}"
proof (cases "offs = Missing")
  case True
  with assms show ?thesis by (simp add: replaceOfficers_def)
next
  case False
  from connQuery_quiet [OF assms, of "delete_officers cid"] obtain u where
    d: "connQuery (delete_officers cid) t = Inr u" and su: "set (tfaults u) \<subseteq> {None}"
    by blast
  from insertOfficersWithMain_quiet [OF su] d False show ?thesis
    by (simp add: replaceOfficers_def)
qed

lemma replacePersons_Inr:
  assumes "replacePersons cid pers t = Inr t'"
  shows "tdb t' = (tdb t)\<lparr>case_persons :=
             (if pers = Missing then case_persons (tdb t)
              else filter (\<lambda>r. cp_case_id r \<noteq> cid) (case_persons (tdb t))
                   @ map (personRowOf cid) (listOf pers))\<rparr>"
proof (cases "pers = Missing")
  case True
  with assms show ?thesis by (simp add: replacePersons_def)
next
  case False
  with assms obtain u where d: "connQuery (delete_persons cid) t = Inr u"
    and i: "insertPersons cid (listOf pers) u = Inr t'"
    by (auto simp: replacePersons_def split: sum.splits)
  from connQuery_Inr [OF d] insertPersons_Inr [OF i] False show ?thesis
    by (simp add: delete_persons_def)
qed

lemma replacePersons_quiet:
  assumes "set (tfaults t) \<subseteq> {None}"
  shows "\<exists>t'. replacePersons cid pers t = Inr t' \<and> set (tfaults t') \<subseteq> {None}"
proof (cases "pers = Missing")
  case True
  with assms show ?thesis by (simp add: replacePersons_def)
next
  case False
  from connQuery_quiet [OF assms, of "delete_persons cid"] obtain u where
    d: "connQuery (delete_persons cid) t = Inr u" and su: "set (tfaults u) \<subseteq> {None}"
    by blast
  from insertPersons_quiet [OF su] d False show ?thesis
    by (simp add: replacePersons_def)
qed

lemma updateCase_tx_Inr:
  assumes "updateCase_tx cid m data t = Inr (v, t')"
  shows "tdb t' = updateWrites cid m data (tdb t)"
proof -
  from assms [unfolded updateCase_tx_def] obtain t1 where
    a: "connQuery (update_case cid m) t = Inr t1"
    and r1: "(case replaceOfficers cid (jsget m ''mainOfficerId'') (officers data) t1 of
                Inl e \<Rightarrow> Inl e
              | Inr t2 \<Rightarrow>
                  (case replacePersons cid (persons data) t2 of
                     Inl e \<Rightarrow> Inl e
                   | Inr t3 \<Rightarrow> Inr ((), t3))) = Inr (v, t')"
    by (rule bind_InrE)
  from r1 obtain t2 where
    b: "replaceOfficers cid (jsget m ''mainOfficerId'') (officers data) t1 = Inr t2"
    and r2: "(case replacePersons cid (persons data) t2 of
                Inl e \<Rightarrow> Inl e
              | Inr t3 \<Rightarrow> Inr ((), t3)) = Inr (v, t')"
    by (rule bind_InrE)
  from r2 obtain t3 where c: "replacePersons cid (persons data) t2 = Inr t3"
    and r3: "Inr ((), t3) = (Inr (v, t') :: thrown + unit \<times> txn)"
    by (rule bind_InrE)
  from r3 have t3: "t3 = t'" by simp
  have 1: "tdb t1 = update_case cid m (tdb t)" by (rule connQuery_Inr [OF a])
  note 2 = replaceOfficers_Inr [OF b]
  note 3 = replacePersons_Inr [OF c, unfolded t3]
  show ?thesis
    unfolding 3 2 1 by (simp add: updateWrites_def update_case_def)
qed

lemma updateCase_tx_quiet:
  assumes "set (tfaults t) \<subseteq> {None}"
  shows "\<exists>t'. updateCase_tx cid m data t = Inr ((), t') \<and> set (tfaults t') \<subseteq> {None}"
proof -
  from connQuery_quiet [OF assms, of "update_case cid m"] obtain t1 where
    a: "connQuery (update_case cid m) t = Inr t1" and s1: "set (tfaults t1) \<subseteq> {None}"
    by blast
  from replaceOfficers_quiet [OF s1] obtain t2 where
    b: "replaceOfficers cid (jsget m ''mainOfficerId'') (officers data) t1 = Inr t2"
    and s2: "set (tfaults t2) \<subseteq> {None}" by blast
  from replacePersons_quiet [OF s2] obtain t3 where
    c: "replacePersons cid (persons data) t2 = Inr t3" and s3: "set (tfaults t3) \<subseteq> {None}"
    by blast
  from a b c s3 show ?thesis by (simp add: updateCase_tx_def)
qed

lemma deleteCase_tx_Inr:
  "deleteCase_tx cid t = Inr (v, t') \<Longrightarrow> tdb t' = delete_case cid (tdb t)"
  by (auto simp: deleteCase_tx_def split: sum.splits dest: connQuery_Inr)

lemma deleteCase_tx_quiet:
  assumes "set (tfaults t) \<subseteq> {None}"
  shows "\<exists>t'. deleteCase_tx cid t = Inr ((), t') \<and> set (tfaults t') \<subseteq> {None}"
  using connQuery_quiet [OF assms, of "delete_case cid"] by (auto simp: deleteCase_tx_def)

lemma withTransaction_cases:
  assumes "withTransaction fn store fs = (r, s')"
  shows "(\<exists>e. r = Inl e \<and> s' = store)
       \<or> (\<exists>v t t'. r = Inr v \<and> tdb t = store \<and> fn t = Inr (v, t') \<and> s' = tdb t')"
proof -
  obtain f1 fs1 where n1: "nextFault fs = (f1, fs1)" by (cases "nextFault fs")
  obtain f2 fs2 where n2: "nextFault fs1 = (f2, fs2)" by (cases "nextFault fs1")
  let ?t = "\<lparr>tdb = store, tfaults = fs2\<rparr>"
  show ?thesis
  proof (cases f1)
    case (Some e)
    with assms n1 show ?thesis by (auto simp: withTransaction_def)
  next
    case None
    note f1 = this
    show ?thesis
    proof (cases f2)
      case (Some e)
      with assms n1 n2 f1 show ?thesis by (auto simp: withTransaction_def)
    next
      case None
      note f2 = this
      show ?thesis
      proof (cases "fn ?t")
        case (Inl err)
        with assms n1 n2 f1 f2 show ?thesis by (auto simp: withTransaction_def)
      next
        case (Inr p)
        obtain v t' where p: "p = (v, t')" by (cases p)
        obtain f3 fs3 where n3: "nextFault (tfaults t') = (f3, fs3)"
          by (cases "nextFault (tfaults t')")
        show ?thesis
        proof (cases f3)
          case (Some e)
          with assms n1 n2 f1 f2 Inr p n3 show ?thesis by (auto simp: withTransaction_def)
        next
          case None
          with assms n1 n2 f1 f2 Inr p n3 have "r = Inr v" "s' = tdb t'"
            by (simp_all add: withTransaction_def)
          with Inr p have "r = Inr v \<and> tdb ?t = store \<and> fn ?t = Inr (v, t') \<and> s' = tdb t'"
            by simp
          then show ?thesis by blast
        qed
      qed
    qed
  qed
qed

lemma withTransaction_quiet:
  assumes "set fs \<subseteq> {None}"
    and "\<And>t. tdb t = store \<Longrightarrow> set (tfaults t) \<subseteq> {None} \<Longrightarrow>
            \<exists>t'. fn t = Inr (v, t') \<and> set (tfaults t') \<subseteq> {None}"
  shows "\<exists>t t'. tdb t = store \<and> fn t = Inr (v, t') \<and> withTransaction fn store fs = (Inr v, tdb t')"
proof -
  obtain f1 fs1 where n1: "nextFault fs = (f1, fs1)" by (cases "nextFault fs")
  with assms(1) have f1: "f1 = None" and s1: "set fs1 \<subseteq> {None}" by (cases fs; auto)+
  obtain f2 fs2 where n2: "nextFault fs1 = (f2, fs2)" by (cases "nextFault fs1")
  with s1 have f2: "f2 = None" and s2: "set fs2 \<subseteq> {None}" by (cases fs1; auto)+
  from assms(2) [of "\<lparr>tdb = store, tfaults = fs2\<rparr>"] s2 obtain t' where
    r: "fn \<lparr>tdb = store, tfaults = fs2\<rparr> = Inr (v, t')" and s3: "set (tfaults t') \<subseteq> {None}"
    by auto
  obtain f3 fs3 where n3: "nextFault (tfaults t') = (f3, fs3)" by (cases "nextFault (tfaults t')")
  with s3 have f3: "f3 = None" by (cases "tfaults t'"; auto)
  have "withTransaction fn store fs = (Inr v, tdb t')"
    by (simp add: withTransaction_def n1 f1 n2 f2 r n3 f3)
  with r show ?thesis by (intro exI [of _ "\<lparr>tdb = store, tfaults = fs2\<rparr>"] exI [of _ t']) simp
qed

lemma catchCaseError_store: "snd (catchCaseError r) = snd r"
  by (cases r; cases "fst r") (simp_all add: catchCaseError_def)

lemma catchCaseError_Inr: "fst (catchCaseError r) = Inr v \<longleftrightarrow> fst r = Inr v"
  by (cases r; cases "fst r") (simp_all add: catchCaseError_def)

lemma catchCaseError_Inl:
  "fst r = Inl err \<Longrightarrow> catchCaseError r = (Inl (App (handleCaseDbError err)), snd r)"
  by (cases err) (simp_all add: catchCaseError_def)

section \<open>Outcomes of the three aggregate writes\<close>

lemma createCase_try_outcome:
  assumes "createCase_try n data store fs = (r, s')"
  shows "(\<exists>e. r = Inl e \<and> s' = store) \<or> (r = Inr n \<and> s' = createWrites n data store)"
proof (cases "if truthy (jsget (pfields data) ''caseNo'')
            then (case poolQuery fs of
                    Inl e \<Rightarrow> Inl e
                  | Inr fs1 \<Rightarrow>
                      if caseNoTaken store (jsget (pfields data) ''caseNo'')
                      then Inl (App (conflict m_caseNo_exists
                                  (Some (FieldErrors [(''caseNo'', Some m_caseNo_exists)]))))
                      else Inr fs1)
            else Inr fs")
  case (Inl e)
  with assms show ?thesis by (auto simp: createCase_try_def)
next
  case (Inr fs1)
  with assms have w: "withTransaction (createCase_tx n data) store fs1 = (r, s')"
    by (simp add: createCase_try_def)
  from withTransaction_cases [OF w] show ?thesis
  proof
    assume "\<exists>e. r = Inl e \<and> s' = store"
    then show ?thesis ..
  next
    assume "\<exists>v t t'. r = Inr v \<and> tdb t = store \<and> createCase_tx n data t = Inr (v, t')
              \<and> s' = tdb t'"
    then obtain v t t' where "r = Inr v" "tdb t = store"
      "createCase_tx n data t = Inr (v, t')" "s' = tdb t'" by blast
    with createCase_tx_Inr [of n data t v t'] show ?thesis by simp
  qed
qed

lemma catchCaseError_outcome:
  assumes "catchCaseError x = (r, s')"
  shows "s' = snd x \<and> (case fst x of Inl err \<Rightarrow> r = Inl (App (handleCaseDbError err))
                                    | Inr v \<Rightarrow> r = Inr v)"
  using assms catchCaseError_Inl [of x]
  by (cases x; cases "fst x") (auto simp: catchCaseError_def)

lemma createCase_outcome:
  assumes "createCase n data u store fs = (r, s')"
  shows "(\<exists>e. r = Inl e \<and> s' = store) \<or> (r = Inr n \<and> s' = createWrites n data store)"
proof (cases "validateCaseBusinessRules (caseForCheck (pfields data))")
  case (Some e)
  with assms show ?thesis by (auto simp: createCase_def)
next
  case None
  with assms have c: "catchCaseError (createCase_try n data store fs) = (r, s')"
    by (simp add: createCase_def)
  obtain r0 s0 where t: "createCase_try n data store fs = (r0, s0)"
    by (cases "createCase_try n data store fs")
  from catchCaseError_outcome [OF c] t createCase_try_outcome [OF t] show ?thesis
    by (cases r0) auto
qed

lemma updateCase_authorized_outcome:
  assumes "updateCase_authorized cid data existing store fs = (r, s')"
  shows "(\<exists>e. r = Inl e \<and> s' = store)
       \<or> (r = Inr cid \<and> s' = updateWrites cid (existing ++ pfields data) data store)"
proof (cases "if truthy (jsget (pfields data) ''caseNo'')
               \<and> jsget (pfields data) ''caseNo'' \<noteq> jsget existing ''caseNo''
            then (case poolQuery fs of
                    Inl e \<Rightarrow> Inl e
                  | Inr fs1 \<Rightarrow>
                      if caseNoTakenByOther store (jsget (pfields data) ''caseNo'') cid
                      then Inl (App (conflict m_caseNo_exists
                                  (Some (FieldErrors [(''caseNo'', Some m_caseNo_exists)]))))
                      else Inr fs1)
            else Inr fs")
  case (Inl e)
  with assms show ?thesis by (auto simp: updateCase_authorized_def)
next
  case (Inr fs1)
  show ?thesis
  proof (cases "validateCaseBusinessRules (existing ++ pfields data)")
    case (Some e)
    with assms Inr show ?thesis by (auto simp: updateCase_authorized_def Let_def)
  next
    case None
    obtain r0 s0 where w: "withTransaction
        (updateCase_tx cid (existing ++ pfields data) data) store fs1 = (r0, s0)"
      by (cases "withTransaction (updateCase_tx cid (existing ++ pfields data) data) store fs1")
    from assms Inr None w have rs: "s' = s0" "(case r0 of Inl e \<Rightarrow> r = Inl e | Inr u \<Rightarrow> r = Inr cid)"
      by (auto simp: updateCase_authorized_def Let_def split: sum.splits)
    from withTransaction_cases [OF w] show ?thesis
    proof
      assume "\<exists>e. r0 = Inl e \<and> s0 = store"
      with rs show ?thesis by auto
    next
      assume "\<exists>v t t'. r0 = Inr v \<and> tdb t = store
                \<and> updateCase_tx cid (existing ++ pfields data) data t = Inr (v, t')
                \<and> s0 = tdb t'"
      then obtain v t t' where "r0 = Inr v" "tdb t = store"
        "updateCase_tx cid (existing ++ pfields data) data t = Inr (v, t')" "s0 = tdb t'"
        by blast
      with updateCase_tx_Inr [of cid "existing ++ pfields data" data t v t'] rs
      show ?thesis by simp
    qed
  qed
qed

lemma updateCase_try_outcome:
  assumes "updateCase_try cid data u store fs = (r, s')"
  shows "(\<exists>e. r = Inl e \<and> s' = store)
       \<or> (\<exists>existing. map_of (case_records store) cid = Some existing \<and> r = Inr cid
             \<and> s' = updateWrites cid (existing ++ pfields data) data store)"
proof (cases "poolQuery fs")
  case (Inl e)
  with assms show ?thesis by (auto simp: updateCase_try_def)
next
  case (Inr fs1)
  show ?thesis
  proof (cases "map_of (case_records store) cid")
    case None
    with assms Inr show ?thesis by (auto simp: updateCase_try_def)
  next
    case (Some existing)
    show ?thesis
    proof (cases "jsget existing ''mainOfficerId'' \<noteq> uid u \<and> \<not> hasPermission u ''case:view_all''")
      case True
      with assms Inr Some show ?thesis by (auto simp: updateCase_try_def Let_def)
    next
      case False
      with assms Inr Some
      have "updateCase_authorized cid data existing store fs1 = (r, s')"
        by (auto simp: updateCase_try_def Let_def)
      from updateCase_authorized_outcome [OF this] Some show ?thesis by auto
    qed
  qed
qed

lemma updateCase_outcome:
  assumes "updateCase cid data u store fs = (r, s')"
  shows "(\<exists>e. r = Inl e \<and> s' = store)
       \<or> (\<exists>existing. map_of (case_records store) cid = Some existing \<and> r = Inr cid
             \<and> s' = updateWrites cid (existing ++ pfields data) data store)"
proof -
  from assms have c: "catchCaseError (updateCase_try cid data u store fs) = (r, s')"
    by (simp add: updateCase_def)
  obtain r0 s0 where t: "updateCase_try cid data u store fs = (r0, s0)"
    by (cases "updateCase_try cid data u store fs")
  from catchCaseError_outcome [OF c] t updateCase_try_outcome [OF t] show ?thesis
    by (cases r0) auto
qed

lemma deleteCase_authorized_outcome:
  assumes "deleteCase_authorized cid rec0 store fs = (r, s')"
  shows "(\<exists>e. r = Inl e \<and> s' = store) \<or> (r = Inr cid \<and> s' = delete_case cid store)"
proof (cases "jsget rec0 ''status'' \<noteq> Str s_zaiban")
  case True
  with assms show ?thesis by (auto simp: deleteCase_authorized_def)
next
  case False
  obtain r0 s0 where w: "withTransaction (deleteCase_tx cid) store fs = (r0, s0)"
    by (cases "withTransaction (deleteCase_tx cid) store fs")
  from assms False w have rs: "s' = s0" "(case r0 of Inl e \<Rightarrow> r = Inl e | Inr u \<Rightarrow> r = Inr cid)"
    by (auto simp: deleteCase_authorized_def split: sum.splits)
  from withTransaction_cases [OF w] show ?thesis
  proof
    assume "\<exists>e. r0 = Inl e \<and> s0 = store"
    with rs show ?thesis by auto
  next
    assume "\<exists>v t t'. r0 = Inr v \<and> tdb t = store \<and> deleteCase_tx cid t = Inr (v, t')
              \<and> s0 = tdb t'"
    then obtain v t t' where "r0 = Inr v" "tdb t = store"
      "deleteCase_tx cid t = Inr (v, t')" "s0 = tdb t'" by blast
    with deleteCase_tx_Inr [of cid t v t'] rs show ?thesis by simp
  qed
qed

lemma deleteCase_try_outcome:
  assumes "deleteCase_try cid u store fs = (r, s')"
  shows "(\<exists>e. r = Inl e \<and> s' = store) \<or> (r = Inr cid \<and> s' = delete_case cid store)"
proof (cases "poolQuery fs")
  case (Inl e)
  with assms show ?thesis by (auto simp: deleteCase_try_def)
next
  case (Inr fs1)
  show ?thesis
  proof (cases "map_of (case_records store) cid")
    case None
    with assms Inr show ?thesis by (auto simp: deleteCase_try_def)
  next
    case (Some rec0)
    show ?thesis
    proof (cases "jsget rec0 ''mainOfficerId'' \<noteq> uid u \<and> \<not> hasPermission u ''case:view_all''")
      case True
      with assms Inr Some show ?thesis by (auto simp: deleteCase_try_def Let_def)
    next
      case False
      with assms Inr Some
      have "deleteCase_authorized cid rec0 store fs1 = (r, s')"
        by (auto simp: deleteCase_try_def Let_def)
      from deleteCase_authorized_outcome [OF this] show ?thesis .
    qed
  qed
qed

lemma deleteCase_outcome:
  assumes "deleteCase cid u store fs = (r, s')"
  shows "(\<exists>e. r = Inl e \<and> s' = store) \<or> (r = Inr cid \<and> s' = delete_case cid store)"
proof -
  from assms have c: "catchCaseError (deleteCase_try cid u store fs) = (r, s')"
    by (simp add: deleteCase_def)
  obtain r0 s0 where t: "deleteCase_try cid u store fs = (r0, s0)"
    by (cases "deleteCase_try cid u store fs")
  from catchCaseError_outcome [OF c] t deleteCase_try_outcome [OF t] show ?thesis
    by (cases r0) auto
qed

lemma createCase_quiet:
  assumes "set fs \<subseteq> {None}"
    and "validateCaseBusinessRules (caseForCheck (pfields data)) = None"
    and "\<not> (truthy (jsget (pfields data) ''caseNo'')
            \<and> caseNoTaken store (jsget (pfields data) ''caseNo''))"
  shows "createCase n data u store fs = (Inr n, createWrites n data store)"
proof -
  from poolQuery_quiet [OF assms(1)] obtain fs0 where
    q: "poolQuery fs = Inr fs0" and s0: "set fs0 \<subseteq> {None}" by blast
  define fs1 where "fs1 = (if truthy (jsget (pfields data) ''caseNo'') then fs0 else fs)"
  have s1: "set fs1 \<subseteq> {None}" using s0 assms(1) by (simp add: fs1_def)
  have t: "createCase_try n data store fs = withTransaction (createCase_tx n data) store fs1"
    using assms(3) q by (simp add: createCase_try_def fs1_def)
  from withTransaction_quiet [OF s1, of store "createCase_tx n data" n] createCase_tx_quiet
  obtain t0 t' where "tdb t0 = store" "createCase_tx n data t0 = Inr (n, t')"
    "withTransaction (createCase_tx n data) store fs1 = (Inr n, tdb t')" by blast
  with createCase_tx_Inr [of n data t0 n t'] t
  have "createCase_try n data store fs = (Inr n, createWrites n data store)" by simp
  with assms(2) show ?thesis by (simp add: createCase_def catchCaseError_def)
qed

lemma updateCase_quiet:
  assumes "set fs \<subseteq> {None}"
    and "map_of (case_records store) cid = Some existing"
    and "jsget existing ''mainOfficerId'' = uid u \<or> hasPermission u ''case:view_all''"
    and "\<not> (truthy (jsget (pfields data) ''caseNo'')
            \<and> jsget (pfields data) ''caseNo'' \<noteq> jsget existing ''caseNo''
            \<and> caseNoTakenByOther store (jsget (pfields data) ''caseNo'') cid)"
    and "validateCaseBusinessRules (existing ++ pfields data) = None"
  shows "updateCase cid data u store fs
           = (Inr cid, updateWrites cid (existing ++ pfields data) data store)"
proof -
  from poolQuery_quiet [OF assms(1)] obtain fs0 where
    q0: "poolQuery fs = Inr fs0" and s0: "set fs0 \<subseteq> {None}" by blast
  from poolQuery_quiet [OF s0] obtain fs0' where
    q1: "poolQuery fs0 = Inr fs0'" and s0': "set fs0' \<subseteq> {None}" by blast
  define fs1 where "fs1 = (if truthy (jsget (pfields data) ''caseNo'')
       \<and> jsget (pfields data) ''caseNo'' \<noteq> jsget existing ''caseNo'' then fs0' else fs0)"
  have s1: "set fs1 \<subseteq> {None}" using s0 s0' by (simp add: fs1_def)
  let ?m = "existing ++ pfields data"
  from withTransaction_quiet [OF s1, of store "updateCase_tx cid ?m data" "()"]
    updateCase_tx_quiet
  obtain t0 t' where "tdb t0 = store" "updateCase_tx cid ?m data t0 = Inr ((), t')"
    "withTransaction (updateCase_tx cid ?m data) store fs1 = (Inr (), tdb t')" by blast
  with updateCase_tx_Inr [of cid ?m data t0 "()" t']
  have w: "withTransaction (updateCase_tx cid ?m data) store fs1
             = (Inr (), updateWrites cid ?m data store)" by simp
  have "updateCase_authorized cid data existing store fs0
          = (Inr cid, updateWrites cid ?m data store)"
    using assms(4,5) q1 w by (auto simp: updateCase_authorized_def fs1_def Let_def)
  with assms(2,3) q0
  have "updateCase_try cid data u store fs = (Inr cid, updateWrites cid ?m data store)"
    by (auto simp: updateCase_try_def Let_def)
  then show ?thesis by (simp add: updateCase_def catchCaseError_def)
qed

lemma deleteCase_quiet:
  assumes "set fs \<subseteq> {None}"
    and "map_of (case_records store) cid = Some existing"
    and "jsget existing ''mainOfficerId'' = uid u \<or> hasPermission u ''case:view_all''"
    and "jsget existing ''status'' = Str s_zaiban"
  shows "deleteCase cid u store fs = (Inr cid, delete_case cid store)"
proof -
  from poolQuery_quiet [OF assms(1)] obtain fs0 where
    q0: "poolQuery fs = Inr fs0" and s0: "set fs0 \<subseteq> {None}" by blast
  from withTransaction_quiet [OF s0, of store "deleteCase_tx cid" "()"] deleteCase_tx_quiet
  obtain t0 t' where "tdb t0 = store" "deleteCase_tx cid t0 = Inr ((), t')"
    "withTransaction (deleteCase_tx cid) store fs0 = (Inr (), tdb t')" by blast
  with deleteCase_tx_Inr [of cid t0 "()" t']
  have w: "withTransaction (deleteCase_tx cid) store fs0 = (Inr (), delete_case cid store)"
    by simp
  have "deleteCase_authorized cid existing store fs0 = (Inr cid, delete_case cid store)"
    using assms(4) w by (simp add: deleteCase_authorized_def)
  with assms(2,3) q0
  have "deleteCase_try cid u store fs = (Inr cid, delete_case cid store)"
    by (auto simp: deleteCase_try_def Let_def)
  then show ?thesis by (simp add: deleteCase_def catchCaseError_def)
qed

section \<open>Facts about the example data\<close>

lemma ex_row1_main: "jsget ex_row1 ''mainOfficerId'' = Num 7"
  by (simp add: ex_row1_def ex_fields_def caseParams_def jsget_def sqlval_def)

lemma ex_row1_caseNo: "jsget ex_row1 ''caseNo'' = Str ''C-001''"
  by (simp add: ex_row1_def ex_fields_def caseParams_def jsget_def sqlval_def)

lemma ex_row1_status: "jsget ex_row1 ''status'' = Str s_zaiban"
  by (simp add: ex_row1_def ex_fields_def caseParams_def jsget_def or_else_def
        status_literals_nonempty)

lemma ex_row1_valid: "validateCaseBusinessRules ex_row1 = None"
  by (rule validate_passes)
     (simp_all add: deadlineViolated_def missingRequired_def statusOf_def ex_row1_def
        ex_fields_def caseParams_def jsget_def or_else_def or_null_def sqlval_def
        status_literals_nonempty status_literals_distinct)

lemma ex_update_fails_late:
  "updateCase 1 ex_no_officers ex_user7 ex_db [None, None, None, None, None, Some ex_dup]
   = (Inl (App (conflict m_caseNo_exists
                  (Some (FieldErrors [(''caseNo'', Some m_caseNo_exists)])))), ex_db)"
  by (simp add: updateCase_def updateCase_try_def updateCase_authorized_def poolQuery_def
        ex_db_def ex_row1_main ex_row1_valid ex_user7_def ex_no_officers_def
        jsget_def [of Map.empty]
        withTransaction_def updateCase_tx_def connQuery_def replaceOfficers_def
        insertOfficersWithMain_def catchCaseError_def handleCaseDbError_def ex_dup_def)

lemma officerRowsFor_case: "r \<in> set (officerRowsFor cid m xs) \<Longrightarrow> co_case_id r = cid"
  by (auto simp: officerRowsFor_def officerRowOf_def mainOfficerRow_def split: if_splits)

lemma filter_replaced:
  assumes "\<And>r. r \<in> set new \<Longrightarrow> key r = cid"
  shows "filter (\<lambda>r. key r = cid) (filter (\<lambda>r. key r \<noteq> cid) old @ new) = new"
    and "filter (\<lambda>r. key r \<noteq> cid) (filter (\<lambda>r. key r \<noteq> cid) old @ new)
           = filter (\<lambda>r. key r \<noteq> cid) old"
proof -
  have a: "filter (\<lambda>r. key r = cid) new = new" using assms by (induction new) auto
  have b: "filter (\<lambda>r. key r \<noteq> cid) new = []" using assms by (induction new) auto
  have c: "filter (\<lambda>r. key r = cid) (filter (\<lambda>r. key r \<noteq> cid) old) = []"
    by (induction old) auto
  show "filter (\<lambda>r. key r = cid) (filter (\<lambda>r. key r \<noteq> cid) old @ new) = new"
    by (simp add: a c)
  show "filter (\<lambda>r. key r \<noteq> cid) (filter (\<lambda>r. key r \<noteq> cid) old @ new)
           = filter (\<lambda>r. key r \<noteq> cid) old"
    by (simp add: b)
qed

lemma updateCase_success:
  assumes "updateCase cid data u store fs = (Inr v, s')"
    and "map_of (case_records store) cid = Some existing"
  shows "s' = updateWrites cid (existing ++ pfields data) data store"
  using updateCase_outcome [OF assms(1)] assms(2) by auto

lemma createCase_success:
  assumes "createCase n data u store fs = (Inr v, s')"
  shows "s' = createWrites n data store"
  using createCase_outcome [OF assms(1)] by auto

lemma ex_fields_valid: "validateCaseBusinessRules (caseForCheck ex_fields) = None"
  by (rule validate_passes)
     (simp_all add: deadlineViolated_def missingRequired_def statusOf_def caseForCheck_def
        ex_fields_def jsget_def or_else_def status_literals_nonempty status_literals_distinct)

lemma ex_create_ok:
  "createCase 1 ex_create ex_user7 ex_empty [] = (Inr 1, createWrites 1 ex_create ex_empty)"
  using createCase_quiet [where fs = "[]" and data = ex_create and store = ex_empty and n = 1
      and u = ex_user7]
  by (simp add: ex_create_def ex_fields_valid caseNoTaken_def ex_empty_def)

section \<open>The rows written for supplied children\<close>

lemma officerRowOf_fields:
  "officerRowOf cid =
     (\<lambda>officer. \<lparr>co_case_id = cid,
        co_officer_id = (if officerId officer = Undefined then Null else officerId officer),
        co_role = (if truthy (role officer) then role officer else Null),
        co_remark = (if truthy (remark officer) then remark officer else Null)\<rparr>)"
  by (rule ext) (simp add: officerRowOf_def sqlval_def or_null_def)

lemma personRowOf_fields:
  "personRowOf cid =
     (\<lambda>person. \<lparr>cp_case_id = cid,
        cp_name = (if p_name person = Undefined then Null else p_name person),
        cp_id_no = (if truthy (p_idNo person) then p_idNo person else Null),
        cp_contact = (if truthy (p_contact person) then p_contact person else Null),
        cp_role_item_id =
          (if p_roleItemId person = Undefined then Null else p_roleItemId person),
        cp_remark = (if truthy (p_remark person) then p_remark person else Null)\<rparr>)"
  by (rule ext) (simp add: personRowOf_def sqlval_def or_null_def)

lemma officerRowsFor_fields:
  "officerRowsFor cid main xs =
     map (\<lambda>officer. \<lparr>co_case_id = cid,
            co_officer_id = (if officerId officer = Undefined then Null else officerId officer),
            co_role = (if truthy (role officer) then role officer else Null),
            co_remark = (if truthy (remark officer) then remark officer else Null)\<rparr>) xs
     @ (if \<exists>officer \<in> set xs. officerId officer = main then []
        else [\<lparr>co_case_id = cid, co_officer_id = (if main = Undefined then Null else main),
               co_role = Str role_zhuban, co_remark = Null\<rparr>])"
  by (simp add: officerRowsFor_def officerRowOf_fields mainOfficerRow_def sqlval_def)

lemma ex_rename_valid:
  "validateCaseBusinessRules (ex_row1(''caseName'' \<mapsto> Str ''burglary'')) = None"
  by (rule validate_passes)
     (simp_all add: deadlineViolated_def missingRequired_def statusOf_def ex_row1_def
        ex_fields_def caseParams_def jsget_def map_add_def or_else_def or_null_def sqlval_def
        status_literals_nonempty status_literals_distinct)

lemma ex_rename_main:
  "jsget (ex_row1(''caseName'' \<mapsto> Str ''burglary'')) ''mainOfficerId'' = Num 7"
  by (simp add: ex_row1_def ex_fields_def caseParams_def jsget_def map_add_def sqlval_def)

lemma ex_db2_case1: "map_of (case_records ex_db2) 1 = Some ex_row1"
  by (simp add: ex_db2_def)

lemma ex_db2_update_ok:
  assumes "pfields data = [''caseName'' \<mapsto> Str ''burglary'']"
  shows "updateCase 1 data ex_user7 ex_db2 []
           = (Inr 1, updateWrites 1 (ex_row1 ++ pfields data) data ex_db2)"
proof -
  have v: "validateCaseBusinessRules (ex_row1 ++ pfields data) = None"
    by (simp add: assms ex_rename_valid)
  show ?thesis
    by (rule updateCase_quiet [OF _ ex_db2_case1 _ _ v])
       (simp_all add: ex_row1_main ex_user7_def assms
          jsget_def [of "[''caseName'' \<mapsto> Str ''burglary'']"])
qed


lemma ex_row2_caseNo: "jsget ex_row2 ''caseNo'' = Str ''C-002''"
  by (simp add: ex_row2_def jsget_def)

lemma ex_create_team_fields:
  "jsget (pfields ex_create_team) ''caseNo'' = Str ''C-003''"
  "jsget (pfields ex_create_team) ''mainOfficerId'' = Num 7"
  by (simp_all add: ex_create_team_def ex_fields_def jsget_def)

lemma ex_create_team_valid:
  "validateCaseBusinessRules (caseForCheck (pfields ex_create_team)) = None"
  by (rule validate_passes)
     (simp_all add: deadlineViolated_def missingRequired_def statusOf_def caseForCheck_def
        ex_create_team_def ex_fields_def jsget_def or_else_def status_literals_nonempty
        status_literals_distinct)

lemma ex_create_team_ok:
  "createCase 3 ex_create_team ex_user7 ex_db2 []
     = (Inr 3, createWrites 3 ex_create_team ex_db2)"
  by (rule createCase_quiet [OF _ ex_create_team_valid])
     (simp_all add: ex_create_team_fields caseNoTaken_def ex_db2_def ex_row1_caseNo
        ex_row2_caseNo)

section \<open>Atomicity of the aggregate writes\<close>

text \<open>
  Claim C1. Creating, updating and deleting a case end in one of two ways, whatever call
  on the storage is rejected and wherever: with an error and the committed tables as
  they were before the call, or with success and all the writes of the operation (the
  parent row and every deletion and insertion of child rows) committed together.
\<close>

theorem aggregate_write_all_or_nothing:
  "(createCase n data u store fs = (r, s') \<longrightarrow>
      (\<exists>e. r = Inl e \<and> s' = store) \<or> (r = Inr n \<and> s' = createWrites n data store))
 \<and> (updateCase cid data u store fs = (r, s') \<longrightarrow>
      (\<exists>e. r = Inl e \<and> s' = store)
      \<or> (\<exists>existing. map_of (case_records store) cid = Some existing \<and> r = Inr cid
            \<and> s' = updateWrites cid (existing ++ pfields data) data store))
 \<and> (deleteCase cid u store fs = (r, s') \<longrightarrow>
      (\<exists>e. r = Inl e \<and> s' = store) \<or> (r = Inr cid \<and> s' = delete_case cid store))"
  using createCase_outcome [of n data u store fs r s']
    updateCase_outcome [of cid data u store fs r s']
    deleteCase_outcome [of cid u store fs r s']
  by blast

theorem aggregate_write_all_or_nothing_witness:
  "(\<exists>e. fst (updateCase 1 ex_no_officers ex_user7 ex_db
                 [None, None, None, None, None, Some ex_dup]) = Inl e)
   \<and> snd (updateCase 1 ex_no_officers ex_user7 ex_db
            [None, None, None, None, None, Some ex_dup]) = ex_db"
proof -
  let ?fs = "[None, None, None, None, None, Some ex_dup]"
  let ?X = "updateCase 1 ex_no_officers ex_user7 ex_db ?fs"
  have "(\<exists>e. fst ?X = Inl e \<and> snd ?X = ex_db)
      \<or> (\<exists>existing. map_of (case_records ex_db) 1 = Some existing \<and> fst ?X = Inr 1
            \<and> snd ?X = updateWrites 1 (existing ++ pfields ex_no_officers) ex_no_officers ex_db)"
    using aggregate_write_all_or_nothing
            [where cid = 1 and data = ex_no_officers and u = ex_user7 and store = ex_db
               and fs = "?fs" and r = "fst ?X" and s' = "snd ?X"]
    by simp
  moreover have "fst ?X \<noteq> Inr 1" unfolding ex_update_fails_late by simp
  ultimately show ?thesis by auto
qed

section \<open>Reconciliation of the child collections\<close>

text \<open>
  Claim C2, as amended. After a successful update of a case: a child collection whose
  key the payload omits keeps all its rows. For a collection whose key is present (an
  empty list included) the rows of the case are deleted and the supplied entries are
  inserted after the rows of the other cases, in their order, each with its own values
  (an absent value, and for the optional texts an empty one, is stored as NULL): exactly
  the supplied persons for \<open>persons\<close>, and for \<open>officers\<close> the supplied officers followed
  by a row for the main officer of the merged record, with the main role, when no
  supplied officer has that id.
\<close>

theorem update_replaces_supplied_children:
  assumes "updateCase cid data u store fs = (Inr v, s')"
    and "map_of (case_records store) cid = Some existing"
  shows "(officers data = Missing \<longrightarrow> case_officers s' = case_officers store)
       \<and> (officers data \<noteq> Missing \<longrightarrow>
            case_officers s'
              = filter (\<lambda>r. co_case_id r \<noteq> cid) (case_officers store)
                @ map (\<lambda>officer.
                         \<lparr>co_case_id = cid,
                          co_officer_id =
                            (if officerId officer = Undefined then Null else officerId officer),
                          co_role = (if truthy (role officer) then role officer else Null),
                          co_remark =
                            (if truthy (remark officer) then remark officer else Null)\<rparr>)
                    (listOf (officers data))
                @ (if \<exists>officer \<in> set (listOf (officers data)).
                        officerId officer = jsget (existing ++ pfields data) ''mainOfficerId''
                   then []
                   else [\<lparr>co_case_id = cid,
                          co_officer_id =
                            (if jsget (existing ++ pfields data) ''mainOfficerId'' = Undefined
                             then Null
                             else jsget (existing ++ pfields data) ''mainOfficerId''),
                          co_role = Str role_zhuban, co_remark = Null\<rparr>]))
       \<and> (persons data = Missing \<longrightarrow> case_persons s' = case_persons store)
       \<and> (persons data \<noteq> Missing \<longrightarrow>
            case_persons s'
              = filter (\<lambda>r. cp_case_id r \<noteq> cid) (case_persons store)
                @ map (\<lambda>person.
                         \<lparr>cp_case_id = cid,
                          cp_name = (if p_name person = Undefined then Null else p_name person),
                          cp_id_no = (if truthy (p_idNo person) then p_idNo person else Null),
                          cp_contact =
                            (if truthy (p_contact person) then p_contact person else Null),
                          cp_role_item_id =
                            (if p_roleItemId person = Undefined then Null
                             else p_roleItemId person),
                          cp_remark =
                            (if truthy (p_remark person) then p_remark person else Null)\<rparr>)
                    (listOf (persons data)))"
proof -
  have s: "s' = updateWrites cid (existing ++ pfields data) data store"
    by (rule updateCase_success [OF assms])
  show ?thesis
    unfolding s by (simp add: updateWrites_def officerRowsFor_fields personRowOf_fields)
qed

theorem update_replaces_supplied_children_witness:
  "case_officers (snd (updateCase 1 ex_replace ex_user7 ex_db2 []))
     = [\<lparr>co_case_id = 2, co_officer_id = Num 8, co_role = Str ''lead'', co_remark = Null\<rparr>,
        \<lparr>co_case_id = 1, co_officer_id = Num 8, co_role = Str ''assist'',
         co_remark = Str ''night shift''\<rparr>,
        \<lparr>co_case_id = 1, co_officer_id = Num 7, co_role = Null, co_remark = Null\<rparr>]
   \<and> case_persons (snd (updateCase 1 ex_replace ex_user7 ex_db2 []))
     = [\<lparr>cp_case_id = 2, cp_name = Str ''Zhao'', cp_id_no = Str ''220102'', cp_contact = Null,
         cp_role_item_id = Num 3, cp_remark = Null\<rparr>,
        \<lparr>cp_case_id = 1, cp_name = Str ''Zhang'', cp_id_no = Str ''110101'', cp_contact = Null,
         cp_role_item_id = Num 4, cp_remark = Str ''saw it''\<rparr>,
        \<lparr>cp_case_id = 1, cp_name = Str ''Liu'', cp_id_no = Null, cp_contact = Str ''555'',
         cp_role_item_id = Num 5, cp_remark = Null\<rparr>]
   \<and> case_officers (snd (updateCase 1 ex_rename ex_user7 ex_db2 []))
     = [\<lparr>co_case_id = 1, co_officer_id = Num 7, co_role = Null, co_remark = Null\<rparr>,
        \<lparr>co_case_id = 2, co_officer_id = Num 8, co_role = Str ''lead'', co_remark = Null\<rparr>,
        \<lparr>co_case_id = 1, co_officer_id = Num 8, co_role = Null, co_remark = Null\<rparr>]
   \<and> case_persons (snd (updateCase 1 ex_rename ex_user7 ex_db2 []))
     = [\<lparr>cp_case_id = 1, cp_name = Str ''Chen'', cp_id_no = Null, cp_contact = Null,
         cp_role_item_id = Num 3, cp_remark = Null\<rparr>,
        \<lparr>cp_case_id = 2, cp_name = Str ''Zhao'', cp_id_no = Str ''220102'', cp_contact = Null,
         cp_role_item_id = Num 3, cp_remark = Null\<rparr>]"
proof -
  let ?X = "updateCase 1 ex_replace ex_user7 ex_db2 []"
  let ?Y = "updateCase 1 ex_rename ex_user7 ex_db2 []"
  have px: "pfields ex_replace = [''caseName'' \<mapsto> Str ''burglary'']"
    and py: "pfields ex_rename = [''caseName'' \<mapsto> Str ''burglary'']"
    by (simp_all add: ex_replace_def ex_rename_def)
  have x: "?X = (Inr 1, snd ?X)" unfolding ex_db2_update_ok [OF px] by simp
  have y: "?Y = (Inr 1, snd ?Y)" unfolding ex_db2_update_ok [OF py] by simp
  have mx: "jsget (ex_row1 ++ pfields ex_replace) ''mainOfficerId'' = Num 7"
    and my: "jsget (ex_row1 ++ pfields ex_rename) ''mainOfficerId'' = Num 7"
    by (simp_all add: px py ex_rename_main)
  have given:
    "officers ex_replace =
       Items [\<lparr>officerId = Num 8, role = Str ''assist'', remark = Str ''night shift''\<rparr>,
              \<lparr>officerId = Num 7, role = Str [], remark = Null\<rparr>]"
    "persons ex_replace =
       Items [\<lparr>p_name = Str ''Zhang'', p_idNo = Str ''110101'', p_contact = Str [],
               p_roleItemId = Num 4, p_remark = Str ''saw it''\<rparr>,
              \<lparr>p_name = Str ''Liu'', p_idNo = Undefined, p_contact = Str ''555'',
               p_roleItemId = Num 5, p_remark = Undefined\<rparr>]"
    "officers ex_rename = Missing" "persons ex_rename = Missing"
    by (simp_all add: ex_replace_def ex_rename_def)
  have stored:
    "case_officers ex_db2 =
       [\<lparr>co_case_id = 1, co_officer_id = Num 7, co_role = Null, co_remark = Null\<rparr>,
        \<lparr>co_case_id = 2, co_officer_id = Num 8, co_role = Str ''lead'', co_remark = Null\<rparr>,
        \<lparr>co_case_id = 1, co_officer_id = Num 8, co_role = Null, co_remark = Null\<rparr>]"
    "case_persons ex_db2 =
       [\<lparr>cp_case_id = 1, cp_name = Str ''Chen'', cp_id_no = Null, cp_contact = Null,
         cp_role_item_id = Num 3, cp_remark = Null\<rparr>,
        \<lparr>cp_case_id = 2, cp_name = Str ''Zhao'', cp_id_no = Str ''220102'', cp_contact = Null,
         cp_role_item_id = Num 3, cp_remark = Null\<rparr>]"
    by (simp_all add: ex_db2_def)
  from update_replaces_supplied_children [OF x ex_db2_case1]
    update_replaces_supplied_children [OF y ex_db2_case1]
  show ?thesis
    by (simp add: mx my given stored)
qed

lemma ex_update_empty_officers:
  "updateCase 1 ex_no_officers ex_user7 ex_db []
   = (Inr 1, updateWrites 1 (ex_row1 ++ pfields ex_no_officers) ex_no_officers ex_db)"
proof -
  have v: "validateCaseBusinessRules (ex_row1 ++ pfields ex_no_officers) = None"
    by (simp add: ex_no_officers_def ex_row1_valid)
  show ?thesis
    by (rule updateCase_quiet [OF _ _ _ _ v])
       (simp_all add: ex_db_def ex_row1_main ex_user7_def ex_no_officers_def
          jsget_def [of Map.empty])
qed

text \<open>
  The claim as it was stated fails: an update that supplies the empty list of officers
  leaves one officer row for the case, the one made for the main officer.
\<close>

theorem update_empty_officers_counterexample:
  "fst (updateCase 1 ex_no_officers ex_user7 ex_db []) = Inr 1
   \<and> listOf (officers ex_no_officers) = []
   \<and> case_officers (snd (updateCase 1 ex_no_officers ex_user7 ex_db []))
     = [\<lparr>co_case_id = 1, co_officer_id = Num 7,
         co_role = Str [CHR 0xE4, CHR 0xB8, CHR 0xBB, CHR 0xE5, CHR 0x8A, CHR 0x9E],
         co_remark = Null\<rparr>]"
proof -
  have m: "jsget (ex_row1 ++ pfields ex_no_officers) ''mainOfficerId'' = Num 7"
    by (simp add: ex_no_officers_def ex_row1_main)
  show ?thesis
    unfolding ex_update_empty_officers
    by (simp add: updateWrites_def officerRowsFor_def m mainOfficerRow_def sqlval_def
          role_zhuban_def)
       (simp add: ex_no_officers_def ex_db_def)
qed

section \<open>The main officer among the officers of a case\<close>

text \<open>
  Claim C3, as amended. After a successful creation, and after a successful update that
  supplies the officers, the officers of the case are the supplied officers, each stored
  with the values it was given (a role or a remark that is not given, or is empty, is
  stored as NULL), followed by one row for the main officer of the written record, with
  the main role, exactly when no supplied officer has the main officer's id. So the main
  officer always has a row in the case, and a supplied row of the main officer keeps the
  role it was given.
\<close>

theorem main_officer_is_participant:
  "(createCase n data u store fs = (Inr v, s') \<longrightarrow>
      case_officers s'
        = case_officers store
          @ map (\<lambda>officer.
                   \<lparr>co_case_id = n,
                    co_officer_id =
                      (if officerId officer = Undefined then Null else officerId officer),
                    co_role = (if truthy (role officer) then role officer else Null),
                    co_remark = (if truthy (remark officer) then remark officer else Null)\<rparr>)
              (listOf (officers data))
          @ (if \<exists>officer \<in> set (listOf (officers data)).
                  officerId officer = jsget (pfields data) ''mainOfficerId''
             then []
             else [\<lparr>co_case_id = n,
                    co_officer_id =
                      (if jsget (pfields data) ''mainOfficerId'' = Undefined then Null
                       else jsget (pfields data) ''mainOfficerId''),
                    co_role = Str role_zhuban, co_remark = Null\<rparr>])
      \<and> (\<exists>row \<in> set (case_officers s').
            co_case_id row = n
            \<and> co_officer_id row
                = (if jsget (pfields data) ''mainOfficerId'' = Undefined then Null
                   else jsget (pfields data) ''mainOfficerId'')))
 \<and> (updateCase cid data u store fs = (Inr v, s')
      \<and> map_of (case_records store) cid = Some existing \<and> officers data \<noteq> Missing \<longrightarrow>
      case_officers s'
        = filter (\<lambda>r. co_case_id r \<noteq> cid) (case_officers store)
          @ map (\<lambda>officer.
                   \<lparr>co_case_id = cid,
                    co_officer_id =
                      (if officerId officer = Undefined then Null else officerId officer),
                    co_role = (if truthy (role officer) then role officer else Null),
                    co_remark = (if truthy (remark officer) then remark officer else Null)\<rparr>)
              (listOf (officers data))
          @ (if \<exists>officer \<in> set (listOf (officers data)).
                  officerId officer = jsget (existing ++ pfields data) ''mainOfficerId''
             then []
             else [\<lparr>co_case_id = cid,
                    co_officer_id =
                      (if jsget (existing ++ pfields data) ''mainOfficerId'' = Undefined
                       then Null else jsget (existing ++ pfields data) ''mainOfficerId''),
                    co_role = Str role_zhuban, co_remark = Null\<rparr>])
      \<and> (\<exists>row \<in> set (case_officers s').
            co_case_id row = cid
            \<and> co_officer_id row
                = (if jsget (existing ++ pfields data) ''mainOfficerId'' = Undefined then Null
                   else jsget (existing ++ pfields data) ''mainOfficerId'')))"
proof -
  have rows: "\<exists>row \<in> set (officerRowsFor k m xs).
                 co_case_id row = k \<and> co_officer_id row = (if m = Undefined then Null else m)"
    for k m xs
    by (auto simp: officerRowsFor_def officerRowOf_def mainOfficerRow_def sqlval_def)
  have c: "case_officers s' = case_officers store
        @ officerRowsFor n (jsget (pfields data) ''mainOfficerId'') (listOf (officers data))"
    if "createCase n data u store fs = (Inr v, s')"
    using createCase_success [OF that] by (simp add: createWrites_def)
  have up: "case_officers s' = filter (\<lambda>r. co_case_id r \<noteq> cid) (case_officers store)
        @ officerRowsFor cid (jsget (existing ++ pfields data) ''mainOfficerId'')
            (listOf (officers data))"
    if "updateCase cid data u store fs = (Inr v, s')"
      and "map_of (case_records store) cid = Some existing" and "officers data \<noteq> Missing"
    using updateCase_success [OF that(1,2)] that(3) by (simp add: updateWrites_def)
  show ?thesis
  proof (intro conjI impI)
    assume a: "createCase n data u store fs = (Inr v, s')"
    show "case_officers s'
        = case_officers store
          @ map (\<lambda>officer.
                   \<lparr>co_case_id = n,
                    co_officer_id =
                      (if officerId officer = Undefined then Null else officerId officer),
                    co_role = (if truthy (role officer) then role officer else Null),
                    co_remark = (if truthy (remark officer) then remark officer else Null)\<rparr>)
              (listOf (officers data))
          @ (if \<exists>officer \<in> set (listOf (officers data)).
                  officerId officer = jsget (pfields data) ''mainOfficerId''
             then []
             else [\<lparr>co_case_id = n,
                    co_officer_id =
                      (if jsget (pfields data) ''mainOfficerId'' = Undefined then Null
                       else jsget (pfields data) ''mainOfficerId''),
                    co_role = Str role_zhuban, co_remark = Null\<rparr>])"
      unfolding c [OF a] officerRowsFor_fields by (rule refl)
    from rows [of n "jsget (pfields data) ''mainOfficerId''" "listOf (officers data)"]
    show "\<exists>row \<in> set (case_officers s').
            co_case_id row = n
            \<and> co_officer_id row
                = (if jsget (pfields data) ''mainOfficerId'' = Undefined then Null
                   else jsget (pfields data) ''mainOfficerId'')"
      unfolding c [OF a] by auto
  next
    assume a: "updateCase cid data u store fs = (Inr v, s')
      \<and> map_of (case_records store) cid = Some existing \<and> officers data \<noteq> Missing"
    then have e: "case_officers s' = filter (\<lambda>r. co_case_id r \<noteq> cid) (case_officers store)
        @ officerRowsFor cid (jsget (existing ++ pfields data) ''mainOfficerId'')
            (listOf (officers data))"
      using up by blast
    show "case_officers s'
        = filter (\<lambda>r. co_case_id r \<noteq> cid) (case_officers store)
          @ map (\<lambda>officer.
                   \<lparr>co_case_id = cid,
                    co_officer_id =
                      (if officerId officer = Undefined then Null else officerId officer),
                    co_role = (if truthy (role officer) then role officer else Null),
                    co_remark = (if truthy (remark officer) then remark officer else Null)\<rparr>)
              (listOf (officers data))
          @ (if \<exists>officer \<in> set (listOf (officers data)).
                  officerId officer = jsget (existing ++ pfields data) ''mainOfficerId''
             then []
             else [\<lparr>co_case_id = cid,
                    co_officer_id =
                      (if jsget (existing ++ pfields data) ''mainOfficerId'' = Undefined
                       then Null else jsget (existing ++ pfields data) ''mainOfficerId''),
                    co_role = Str role_zhuban, co_remark = Null\<rparr>])"
      unfolding e officerRowsFor_fields by (rule refl)
    from rows [of cid "jsget (existing ++ pfields data) ''mainOfficerId''"
                  "listOf (officers data)"]
    show "\<exists>row \<in> set (case_officers s').
            co_case_id row = cid
            \<and> co_officer_id row
                = (if jsget (existing ++ pfields data) ''mainOfficerId'' = Undefined then Null
                   else jsget (existing ++ pfields data) ''mainOfficerId'')"
      unfolding e by auto
  qed
qed

theorem main_officer_is_participant_witness:
  "case_officers (snd (createCase 3 ex_create_team ex_user7 ex_db2 []))
     = [\<lparr>co_case_id = 1, co_officer_id = Num 7, co_role = Null, co_remark = Null\<rparr>,
        \<lparr>co_case_id = 2, co_officer_id = Num 8, co_role = Str ''lead'', co_remark = Null\<rparr>,
        \<lparr>co_case_id = 1, co_officer_id = Num 8, co_role = Null, co_remark = Null\<rparr>,
        \<lparr>co_case_id = 3, co_officer_id = Num 9, co_role = Str ''assist'',
         co_remark = Str ''on loan''\<rparr>,
        \<lparr>co_case_id = 3, co_officer_id = Num 7,
         co_role = Str [CHR 0xE4, CHR 0xB8, CHR 0xBB, CHR 0xE5, CHR 0x8A, CHR 0x9E],
         co_remark = Null\<rparr>]
   \<and> case_officers (snd (updateCase 1 ex_main_with_role ex_user7 ex_db2 []))
     = [\<lparr>co_case_id = 2, co_officer_id = Num 8, co_role = Str ''lead'', co_remark = Null\<rparr>,
        \<lparr>co_case_id = 1, co_officer_id = Num 7, co_role = Str ''lead'', co_remark = Null\<rparr>]
   \<and> case_officers (snd (updateCase 1 ex_without_main ex_user7 ex_db2 []))
     = [\<lparr>co_case_id = 2, co_officer_id = Num 8, co_role = Str ''lead'', co_remark = Null\<rparr>,
        \<lparr>co_case_id = 1, co_officer_id = Num 8, co_role = Str ''assist'', co_remark = Null\<rparr>,
        \<lparr>co_case_id = 1, co_officer_id = Num 7,
         co_role = Str [CHR 0xE4, CHR 0xB8, CHR 0xBB, CHR 0xE5, CHR 0x8A, CHR 0x9E],
         co_remark = Null\<rparr>]"
proof -
  let ?A = "createCase 3 ex_create_team ex_user7 ex_db2 []"
  let ?B = "updateCase 1 ex_main_with_role ex_user7 ex_db2 []"
  let ?C = "updateCase 1 ex_without_main ex_user7 ex_db2 []"
  have pb: "pfields ex_main_with_role = [''caseName'' \<mapsto> Str ''burglary'']"
    and pc: "pfields ex_without_main = [''caseName'' \<mapsto> Str ''burglary'']"
    by (simp_all add: ex_main_with_role_def ex_without_main_def)
  have a: "?A = (Inr 3, snd ?A)" unfolding ex_create_team_ok by simp
  have b: "?B = (Inr 1, snd ?B)" unfolding ex_db2_update_ok [OF pb] by simp
  have c: "?C = (Inr 1, snd ?C)" unfolding ex_db2_update_ok [OF pc] by simp
  have mb: "jsget (ex_row1 ++ pfields ex_main_with_role) ''mainOfficerId'' = Num 7"
    and mc: "jsget (ex_row1 ++ pfields ex_without_main) ''mainOfficerId'' = Num 7"
    by (simp_all add: pb pc ex_rename_main)
  have given:
    "officers ex_create_team =
       Items [\<lparr>officerId = Num 9, role = Str ''assist'', remark = Str ''on loan''\<rparr>]"
    "officers ex_main_with_role =
       Items [\<lparr>officerId = Num 7, role = Str ''lead'', remark = Null\<rparr>]"
    "officers ex_without_main =
       Items [\<lparr>officerId = Num 8, role = Str ''assist'', remark = Undefined\<rparr>]"
    by (simp_all add: ex_create_team_def ex_main_with_role_def ex_without_main_def)
  have stored:
    "case_officers ex_db2 =
       [\<lparr>co_case_id = 1, co_officer_id = Num 7, co_role = Null, co_remark = Null\<rparr>,
        \<lparr>co_case_id = 2, co_officer_id = Num 8, co_role = Str ''lead'', co_remark = Null\<rparr>,
        \<lparr>co_case_id = 1, co_officer_id = Num 8, co_role = Null, co_remark = Null\<rparr>]"
    by (simp add: ex_db2_def)
  have ta: "case_officers (snd ?A) = case_officers ex_db2
      @ [\<lparr>co_case_id = 3, co_officer_id = Num 9, co_role = Str ''assist'',
          co_remark = Str ''on loan''\<rparr>,
         \<lparr>co_case_id = 3, co_officer_id = Num 7, co_role = Str role_zhuban,
          co_remark = Null\<rparr>]"
    using main_officer_is_participant
            [where n = 3 and data = ex_create_team and u = ex_user7 and store = ex_db2
               and fs = "[]" and v = 3 and s' = "snd ?A"] a
    by (simp add: given ex_create_team_fields)
  have tb: "case_officers (snd ?B)
      = filter (\<lambda>r. co_case_id r \<noteq> 1) (case_officers ex_db2)
        @ [\<lparr>co_case_id = 1, co_officer_id = Num 7, co_role = Str ''lead'', co_remark = Null\<rparr>]"
    using main_officer_is_participant
            [where cid = 1 and data = ex_main_with_role and u = ex_user7 and store = ex_db2
               and fs = "[]" and v = 1 and s' = "snd ?B" and existing = ex_row1] b
      ex_db2_case1
    by (simp add: given mb)
  have tc: "case_officers (snd ?C)
      = filter (\<lambda>r. co_case_id r \<noteq> 1) (case_officers ex_db2)
        @ [\<lparr>co_case_id = 1, co_officer_id = Num 8, co_role = Str ''assist'', co_remark = Null\<rparr>,
           \<lparr>co_case_id = 1, co_officer_id = Num 7, co_role = Str role_zhuban,
            co_remark = Null\<rparr>]"
    using main_officer_is_participant
            [where cid = 1 and data = ex_without_main and u = ex_user7 and store = ex_db2
               and fs = "[]" and v = 1 and s' = "snd ?C" and existing = ex_row1] c
      ex_db2_case1
    by (simp add: given mc)
  show ?thesis
    unfolding ta tb tc by (simp add: stored role_zhuban_def)
qed

text \<open>
  The example of the claim fails as stated: the creation with main officer 7 and the one
  officer 7 without a role leaves exactly one officer row for 7, and its role is NULL,
  not the main role.
\<close>

theorem create_example_role_counterexample:
  "fst (createCase 1 ex_create ex_user7 ex_empty []) = Inr 1
   \<and> case_officers (snd (createCase 1 ex_create ex_user7 ex_empty []))
     = [\<lparr>co_case_id = 1, co_officer_id = Num 7, co_role = Null, co_remark = Null\<rparr>]
   \<and> Null \<noteq> Str role_zhuban"
  unfolding ex_create_ok
  by (simp add: createWrites_def officerRowsFor_def ex_create_def ex_empty_def ex_fields_def
        jsget_def officerRowOf_def sqlval_def or_null_def)

section \<open>Merging a patch into the stored record\<close>

lemma merged_case_semantics:
  "jsget (existing ++ data) k = (if k \<in> dom data then jsget data k else jsget existing k)"
  by (auto simp: jsget_def map_add_def split: option.splits)

lemma mergeInspection_null_replaces:
  "jsget data ''description'' = Null \<Longrightarrow>
     jsget (mergeInspection data existing) ''description'' = Null"
  by (simp add: mergeInspection_def jsget_def defined_or_def)

lemma mergePlace_communityId_null_replaces:
  "jsget data ''communityId'' = Null \<Longrightarrow>
     jsget (mergePlace data existing) ''communityId'' = Null"
  by (simp add: mergePlace_def jsget_def defined_or_def)

text \<open>
  Claim C4. The claim holds for cases and inspections, and for the two reference fields
  of a place; for the other fields of a place the code keeps the stored value when the
  patch sets the field to \<open>null\<close>. Here the patch \<open>{remark: null}\<close> on a place whose remark
  is a note: the merged record and the value written keep the note.
\<close>

theorem updatePlace_null_keeps_existing:
  "jsget (mergePlace [''remark'' \<mapsto> Null] ex_place) ''remark'' = Str ''old note''
   \<and> map_of (placeParams (mergePlace [''remark'' \<mapsto> Null] ex_place)) ''remark''
       = Some (Str ''old note'')
   \<and> jsget (mergePlace [''communityId'' \<mapsto> Null] ex_place) ''communityId'' = Null"
  by (simp add: mergePlace_def placeParams_def ex_place_def jsget_def nullish_def
        defined_or_def)

section \<open>Required fields of a closed case\<close>

lemma updateCase_authorized_invalid:
  assumes "validateCaseBusinessRules (existing ++ pfields data) = Some e"
  shows "\<exists>err. updateCase_authorized cid data existing store fs = (Inl err, store)"
proof (cases "if truthy (jsget (pfields data) ''caseNo'')
               \<and> jsget (pfields data) ''caseNo'' \<noteq> jsget existing ''caseNo''
            then (case poolQuery fs of
                    Inl e \<Rightarrow> Inl e
                  | Inr fs1 \<Rightarrow>
                      if caseNoTakenByOther store (jsget (pfields data) ''caseNo'') cid
                      then Inl (App (conflict m_caseNo_exists
                                  (Some (FieldErrors [(''caseNo'', Some m_caseNo_exists)]))))
                      else Inr fs1)
            else Inr fs")
  case (Inl x)
  then show ?thesis by (simp add: updateCase_authorized_def)
next
  case (Inr fs1)
  with assms show ?thesis by (simp add: updateCase_authorized_def Let_def)
qed

lemma updateCase_invalid:
  assumes "map_of (case_records store) cid = Some existing"
    and "validateCaseBusinessRules (existing ++ pfields data) = Some e"
  shows "\<exists>err. updateCase cid data u store fs = (Inl err, store)"
proof -
  obtain r s' where x: "updateCase cid data u store fs = (r, s')"
    by (cases "updateCase cid data u store fs")
  from updateCase_outcome [OF x] show ?thesis
  proof
    assume "\<exists>e. r = Inl e \<and> s' = store"
    with x show ?thesis by auto
  next
    assume "\<exists>existing. map_of (case_records store) cid = Some existing \<and> r = Inr cid
             \<and> s' = updateWrites cid (existing ++ pfields data) data store"
    then have r: "r = Inr cid" by blast
    from x have c: "catchCaseError (updateCase_try cid data u store fs) = (r, s')"
      by (simp add: updateCase_def)
    obtain r0 s0 where t: "updateCase_try cid data u store fs = (r0, s0)"
      by (cases "updateCase_try cid data u store fs")
    from catchCaseError_outcome [OF c] t r have r0: "r0 = Inr cid" by (cases r0) auto
    have "updateCase_authorized cid data existing store fs1 \<noteq> (Inr cid, s)" for fs1 s
    proof
      assume a: "updateCase_authorized cid data existing store fs1 = (Inr cid, s)"
      from updateCase_authorized_invalid [OF assms(2)] obtain err where
        "updateCase_authorized cid data existing store fs1 = (Inl err, store)" by blast
      with a show False by simp
    qed
    with t r0 assms(1) have False
      by (auto simp: updateCase_try_def Let_def split: sum.splits if_splits)
    then show ?thesis ..
  qed
qed

lemma updateCase_try_reaches_validation:
  assumes "set fs \<subseteq> {None}"
    and "map_of (case_records store) cid = Some existing"
    and "jsget existing ''mainOfficerId'' = uid u \<or> hasPermission u ''case:view_all''"
    and "\<not> (truthy (jsget (pfields data) ''caseNo'')
            \<and> jsget (pfields data) ''caseNo'' \<noteq> jsget existing ''caseNo''
            \<and> caseNoTakenByOther store (jsget (pfields data) ''caseNo'') cid)"
    and "validateCaseBusinessRules (existing ++ pfields data) = Some e"
  shows "updateCase_try cid data u store fs = (Inl (App e), store)"
proof -
  from poolQuery_quiet [OF assms(1)] obtain fs0 where
    q0: "poolQuery fs = Inr fs0" and s0: "set fs0 \<subseteq> {None}" by blast
  from poolQuery_quiet [OF s0] obtain fs0' where q1: "poolQuery fs0 = Inr fs0'" by blast
  have "updateCase_authorized cid data existing store fs0 = (Inl (App e), store)"
    using assms(4,5) q1 by (auto simp: updateCase_authorized_def Let_def)
  with assms(2,3) q0 show ?thesis by (auto simp: updateCase_try_def Let_def)
qed

text \<open>
  Claim C5, as amended. Let a record have the status closed, no deadline before its
  reception, and no closing date or no result. The validation refuses it with a
  validation error (status 400) whose map names each of the two fields that is missing,
  both when both are. A creation whose payload gives this record fails with that error
  and writes nothing. In an update the record validated is the stored row overridden by
  the patch; the update writes nothing and fails, and when the caller passed the
  ownership test, no storage call is rejected and the case number is free, the error
  raised inside the service is that validation error.
\<close>

theorem closed_case_needs_date_and_result:
  assumes "statusOf m = Str s_yijie"
    and "\<not> deadlineViolated m"
    and "\<not> truthy (jsget m ''closedDate'') \<or> isNil (jsget m ''resultItemId'')"
  shows "\<exists>e. validateCaseBusinessRules m = Some e
           \<and> errorCode e = VALIDATION_ERROR \<and> status e = 400
           \<and> reportedKeys e
               = (if truthy (jsget m ''closedDate'') then [] else [''closedDate''])
                 @ (if isNil (jsget m ''resultItemId'') then [''resultItemId''] else [])
           \<and> (m = caseForCheck (pfields data) \<longrightarrow>
                 createCase n data u store fs = (Inl (App e), store))
           \<and> (map_of (case_records store) cid = Some existing \<and> m = existing ++ pfields data
                 \<longrightarrow> (\<exists>err. updateCase cid data u store fs = (Inl err, store))
                     \<and> (set fs \<subseteq> {None}
                          \<and> (jsget existing ''mainOfficerId'' = uid u
                               \<or> hasPermission u ''case:view_all'')
                          \<and> \<not> (truthy (jsget (pfields data) ''caseNo'')
                                 \<and> jsget (pfields data) ''caseNo'' \<noteq> jsget existing ''caseNo''
                                 \<and> caseNoTakenByOther store (jsget (pfields data) ''caseNo'') cid)
                         \<longrightarrow> updateCase_try cid data u store fs = (Inl (App e), store)))"
proof -
  have mr: "missingRequired m
              = (if truthy (jsget m ''closedDate'') then [] else [''closedDate''])
                 @ (if isNil (jsget m ''resultItemId'') then [''resultItemId''] else [])"
    using assms(1) by (simp add: missingRequired_def)
  with assms(3) have ne: "missingRequired m \<noteq> []" by auto
  from validate_status_rule [OF assms(2) ne] obtain e where
    v: "validateCaseBusinessRules m = Some e" and c: "errorCode e = VALIDATION_ERROR"
    and s: "status e = 400" and k: "reportedKeys e = missingRequired m" by blast
  have cr: "m = caseForCheck (pfields data) \<longrightarrow>
              createCase n data u store fs = (Inl (App e), store)"
    using v by (auto simp: createCase_def)
  have up1: "map_of (case_records store) cid = Some existing \<and> m = existing ++ pfields data
               \<longrightarrow> (\<exists>err. updateCase cid data u store fs = (Inl err, store))"
    using v updateCase_invalid [of store cid existing data e u fs] by auto
  have up2: "map_of (case_records store) cid = Some existing \<and> m = existing ++ pfields data
               \<longrightarrow> (set fs \<subseteq> {None}
                          \<and> (jsget existing ''mainOfficerId'' = uid u
                               \<or> hasPermission u ''case:view_all'')
                          \<and> \<not> (truthy (jsget (pfields data) ''caseNo'')
                                 \<and> jsget (pfields data) ''caseNo'' \<noteq> jsget existing ''caseNo''
                                 \<and> caseNoTakenByOther store (jsget (pfields data) ''caseNo'') cid)
                         \<longrightarrow> updateCase_try cid data u store fs = (Inl (App e), store))"
    using v updateCase_try_reaches_validation [of fs store cid existing u data e] by blast
  from v c s k mr cr up1 up2 show ?thesis by (intro exI [of _ e]) simp
qed

lemma ex_close_merged:
  "statusOf (ex_row1 ++ pfields ex_close) = Str s_yijie"
  "\<not> deadlineViolated (ex_row1 ++ pfields ex_close)"
  "\<not> truthy (jsget (ex_row1 ++ pfields ex_close) ''closedDate'')"
  "isNil (jsget (ex_row1 ++ pfields ex_close) ''resultItemId'')"
  by (simp_all add: statusOf_def deadlineViolated_def ex_row1_def ex_close_def ex_fields_def
        caseParams_def jsget_def map_add_def or_null_def or_else_def sqlval_def isNil_def)

theorem closed_case_needs_date_and_result_witness:
  "\<exists>e. validateCaseBusinessRules (ex_row1 ++ pfields ex_close) = Some e
       \<and> errorCode e = VALIDATION_ERROR
       \<and> reportedKeys e = [''closedDate'', ''resultItemId'']
       \<and> updateCase_try 1 ex_close ex_user7 ex_db [] = (Inl (App e), ex_db)"
proof -
  let ?m = "ex_row1 ++ pfields ex_close"
  have h3: "\<not> truthy (jsget ?m ''closedDate'') \<or> isNil (jsget ?m ''resultItemId'')"
    by (simp add: ex_close_merged)
  have pre: "map_of (case_records ex_db) 1 = Some ex_row1" "set ([] :: faults) \<subseteq> {None}"
    "jsget ex_row1 ''mainOfficerId'' = uid ex_user7"
    "\<not> truthy (jsget (pfields ex_close) ''caseNo'')"
    by (simp_all add: ex_db_def ex_row1_main ex_user7_def ex_close_def
          jsget_def [of "[''status'' \<mapsto> Str s_yijie]"])
  from closed_case_needs_date_and_result
         [OF ex_close_merged(1) ex_close_merged(2) h3,
          where data = ex_close and store = ex_db and cid = 1 and existing = ex_row1
            and u = ex_user7 and fs = "[]"]
  obtain e where "validateCaseBusinessRules ?m = Some e" "errorCode e = VALIDATION_ERROR"
    "reportedKeys e = (if truthy (jsget ?m ''closedDate'') then [] else [''closedDate''])
                 @ (if isNil (jsget ?m ''resultItemId'') then [''resultItemId''] else [])"
    "updateCase_try 1 ex_close ex_user7 ex_db [] = (Inl (App e), ex_db)"
    using pre by auto
  then show ?thesis by (intro exI [of _ e]) (simp add: ex_close_merged)
qed

lemma ex_late_check: "deadlineViolated (caseForCheck ex_late)"
  by (simp add: deadlineViolated_def caseForCheck_def ex_late_def jsget_def)

lemma ex_close_update:
  "updateCase 1 ex_close ex_user7 ex_db []
     = (Inl (App (dbError (''AppError: '' @ m_closed_needs) None)), ex_db)"
proof -
  have v: "validateCaseBusinessRules (ex_row1 ++ pfields ex_close)
             = Some (validationError m_closed_needs
                (Some (FieldErrors [(''closedDate'', Some m_closedDate_req),
                                    (''resultItemId'', Some m_result_req)])))"
    by (subst validate_unfold) (simp add: ex_close_merged)
  have t: "updateCase_try 1 ex_close ex_user7 ex_db []
             = (Inl (App (validationError m_closed_needs
                (Some (FieldErrors [(''closedDate'', Some m_closedDate_req),
                                    (''resultItemId'', Some m_result_req)])))), ex_db)"
    by (rule updateCase_try_reaches_validation [OF _ _ _ _ v])
       (simp_all add: ex_db_def ex_row1_main ex_user7_def ex_close_def
          jsget_def [of "[''status'' \<mapsto> Str s_yijie]"])
  have n: "m_closed_needs \<noteq> []" by (simp add: m_closed_needs_def)
  show ?thesis
    unfolding updateCase_def t
    by (simp add: catchCaseError_def handleCaseDbError_def validationError_def mkAppError_def
          errorToString_def n)
qed

text \<open>
  The claim as it was stated fails in two places. A creation of a closed case without
  closing date and result and with a deadline before the reception is refused with the
  key of the deadline alone. The update of the specification's example (status closed,
  nothing else, by the owner) leaves the service as a storage error with status 500 and
  no details.
\<close>

theorem closed_case_counterexample:
  "createCase 1 ex_late_create ex_user7 ex_empty []
     = (Inl (App (validationError m_deadline_early
                    (Some (FieldErrors [(''deadlineDate'', Some m_deadline_field)])))),
        ex_empty)
   \<and> updateCase 1 ex_close ex_user7 ex_db []
     = (Inl (App \<lparr>errorCode = DB_ERROR, message = ''AppError: '' @ m_closed_needs,
                   status = 500, details = None, isOperational = True\<rparr>), ex_db)"
  unfolding ex_close_update
  by (simp add: createCase_def ex_late_create_def validate_deadline_first ex_late_check
        dbError_def mkAppError_def)

section \<open>What the validation reports\<close>

text \<open>
  Claim C6, as amended. The rules are tried in a fixed order and the first violated
  rule alone is reported: a deadline before the date of reception gives a validation
  error with the one key \<open>deadlineDate\<close>, whatever else is wrong; otherwise the fields
  that the status requires and that are missing are reported, all of them in one map;
  otherwise the record passes.
\<close>

theorem validation_reports_first_violated_rule:
  "(deadlineViolated c \<longrightarrow>
      (\<exists>e. validateCaseBusinessRules c = Some e \<and> errorCode e = VALIDATION_ERROR
           \<and> reportedKeys e = [''deadlineDate'']))
 \<and> (\<not> deadlineViolated c \<and> missingRequired c \<noteq> [] \<longrightarrow>
      (\<exists>e. validateCaseBusinessRules c = Some e \<and> errorCode e = VALIDATION_ERROR
           \<and> reportedKeys e = missingRequired c))
 \<and> (\<not> deadlineViolated c \<and> missingRequired c = [] \<longrightarrow>
      validateCaseBusinessRules c = None)"
proof (intro conjI impI)
  assume "deadlineViolated c"
  then show "\<exists>e. validateCaseBusinessRules c = Some e \<and> errorCode e = VALIDATION_ERROR
           \<and> reportedKeys e = [''deadlineDate'']"
    by (simp add: validate_deadline_first validationError_code reportedKeys_def
          validationError_def mkAppError_def)
next
  assume "\<not> deadlineViolated c \<and> missingRequired c \<noteq> []"
  with validate_status_rule [of c]
  show "\<exists>e. validateCaseBusinessRules c = Some e \<and> errorCode e = VALIDATION_ERROR
           \<and> reportedKeys e = missingRequired c"
    by blast
next
  assume "\<not> deadlineViolated c \<and> missingRequired c = []"
  then show "validateCaseBusinessRules c = None" by (simp add: validate_passes)
qed

theorem validation_reports_first_violated_rule_witness:
  "\<exists>e. validateCaseBusinessRules [''status'' \<mapsto> Str s_yijie] = Some e
       \<and> errorCode e = VALIDATION_ERROR
       \<and> reportedKeys e = [''closedDate'', ''resultItemId'']"
proof -
  let ?c = "[''status'' \<mapsto> Str s_yijie]"
  have a: "\<not> deadlineViolated ?c" by (simp add: deadlineViolated_def jsget_def)
  have b: "missingRequired ?c = [''closedDate'', ''resultItemId'']"
    by (simp add: missingRequired_def statusOf_def jsget_def isNil_def)
  from validation_reports_first_violated_rule [of ?c] a b show ?thesis by simp
qed

lemma ex_late_violates: "deadlineViolated ex_late"
  by (simp add: deadlineViolated_def ex_late_def jsget_def)

text \<open>
  The claim as it was stated fails: a closed record without closing date and result whose
  deadline is before its reception is answered with the key of the deadline alone.
\<close>

theorem validation_first_rule_only_counterexample:
  "validateCaseBusinessRules ex_late
     = Some (validationError m_deadline_early
               (Some (FieldErrors [(''deadlineDate'', Some m_deadline_field)])))
   \<and> reportedKeys (validationError m_deadline_early
               (Some (FieldErrors [(''deadlineDate'', Some m_deadline_field)])))
       = [''deadlineDate'']
   \<and> missingRequired ex_late = [''closedDate'', ''resultItemId'']"
  by (simp add: validate_deadline_first ex_late_violates reportedKeys_def validationError_def
        mkAppError_def)
     (simp add: missingRequired_def statusOf_def ex_late_def jsget_def isNil_def)

section \<open>Collisions on a unique field\<close>

lemma ex_fields_caseNo: "jsget ex_fields ''caseNo'' = Str ''C-001''"
  by (simp add: ex_fields_def jsget_def)

lemma ex_create_taken: "caseNoTaken ex_db (Str ''C-001'')"
  by (simp add: caseNoTaken_def ex_db_def ex_row1_caseNo)

lemma m_caseNo_exists_nonempty: "m_caseNo_exists \<noteq> []"
  by (simp add: m_caseNo_exists_def)

text \<open>
  Claim C7. The claim is what the officers' service does, and the cases' service for the
  race; two paths miss it. In the cases' service the conflict raised by the pre-flight
  query is caught by the service's own \<open>catch\<close>, which tests a property \<open>isAppError\<close> that
  no error has, and leaves as a storage error with status 500: here the creation of a
  case whose number is taken. In the registration a duplicate-key error of the insert
  becomes a storage error too. The third equation is the race in the cases' service,
  which does give a conflict.
\<close>

theorem preflight_conflict_becomes_db_error:
  "createCase 2 ex_create ex_user7 ex_db []
     = (Inl (App \<lparr>errorCode = DB_ERROR, message = ''AppError: '' @ m_caseNo_exists,
                   status = 500, details = None, isOperational = True\<rparr>), ex_db)
   \<and> fst (register (\<lambda>p. ''hash:'' @ p) t_badgeNo 9 ''A001'' ''Li'' ''pw'' Null ex_auth
            [None, Some ex_dup])
     = Inl (App \<lparr>errorCode = DB_ERROR, message = m_register_failed, status = 500,
                 details = None, isOperational = True\<rparr>)
   \<and> createCase 2 ex_create ex_user7 ex_empty [None, None, None, Some ex_dup]
     = (Inl (App \<lparr>errorCode = CONFLICT, message = m_caseNo_exists, status = 409,
                   details = Some (FieldErrors [(''caseNo'', Some m_caseNo_exists)]),
                   isOperational = True\<rparr>), ex_empty)"
proof (intro conjI)
  show "createCase 2 ex_create ex_user7 ex_db []
     = (Inl (App \<lparr>errorCode = DB_ERROR, message = ''AppError: '' @ m_caseNo_exists,
                   status = 500, details = None, isOperational = True\<rparr>), ex_db)"
    by (simp add: createCase_def ex_create_def ex_fields_valid createCase_try_def
          ex_fields_caseNo ex_create_taken poolQuery_def catchCaseError_def
          handleCaseDbError_def conflict_def dbError_def mkAppError_def errorToString_def
          m_caseNo_exists_nonempty)
  show "fst (register (\<lambda>p. ''hash:'' @ p) t_badgeNo 9 ''A001'' ''Li'' ''pw'' Null ex_auth
            [None, Some ex_dup])
     = Inl (App \<lparr>errorCode = DB_ERROR, message = m_register_failed, status = 500,
                 details = None, isOperational = True\<rparr>)"
    by (simp add: register_def poolQuery_def findOfficerByBadgeNo_def ex_auth_def dbError_def
          mkAppError_def)
  show "createCase 2 ex_create ex_user7 ex_empty [None, None, None, Some ex_dup]
     = (Inl (App \<lparr>errorCode = CONFLICT, message = m_caseNo_exists, status = 409,
                   details = Some (FieldErrors [(''caseNo'', Some m_caseNo_exists)]),
                   isOperational = True\<rparr>), ex_empty)"
    by (simp add: createCase_def ex_create_def ex_fields_valid createCase_try_def
          ex_fields_caseNo caseNoTaken_def ex_empty_def poolQuery_def withTransaction_def
          createCase_tx_def connQuery_def catchCaseError_def handleCaseDbError_def
          ex_dup_def conflict_def mkAppError_def)
qed

section \<open>Ownership of a case\<close>

text \<open>
  Claim C8, as amended. Let the caller lack \<open>case:view_all\<close>, the case exist and the query
  that loads it go through. The detail is given to the main officer and to an officer
  who takes part in the case, and refused as forbidden to any other caller. An update or
  a deletion by the main officer goes on past the ownership test; by any other caller it
  stops at the test, where the forbidden error is raised, and writes nothing.
\<close>

theorem ownership_gate:
  assumes "\<not> hasPermission u ''case:view_all''"
    and "map_of (case_records store) cid = Some row"
    and "poolQuery fs = Inr fs1"
  shows "(jsget row ''mainOfficerId'' = uid u \<longrightarrow>
            getCaseDetail cid u store fs = getCaseDetail_authorized cid row store fs1
            \<and> updateCase_try cid data u store fs = updateCase_authorized cid data row store fs1
            \<and> deleteCase_try cid u store fs = deleteCase_authorized cid row store fs1)
       \<and> (jsget row ''mainOfficerId'' \<noteq> uid u \<longrightarrow>
            (poolQuery fs1 = Inr fs2 \<longrightarrow>
               getCaseDetail cid u store fs
                 = (if takesPart store cid u then getCaseDetail_authorized cid row store fs2
                    else Inl (App (forbidden m_no_view None))))
            \<and> updateCase_try cid data u store fs = (Inl (App (forbidden m_no_modify None)), store)
            \<and> deleteCase_try cid u store fs = (Inl (App (forbidden m_no_delete None)), store)
            \<and> (\<exists>e. updateCase cid data u store fs = (Inl e, store))
            \<and> (\<exists>e. deleteCase cid u store fs = (Inl e, store)))"
proof (intro conjI impI)
  assume m: "jsget row ''mainOfficerId'' = uid u"
  show "getCaseDetail cid u store fs = getCaseDetail_authorized cid row store fs1"
    using assms m by (simp add: getCaseDetail_def)
  show "updateCase_try cid data u store fs = updateCase_authorized cid data row store fs1"
    using assms m by (simp add: updateCase_try_def Let_def)
  show "deleteCase_try cid u store fs = deleteCase_authorized cid row store fs1"
    using assms m by (simp add: deleteCase_try_def Let_def)
next
  assume m: "jsget row ''mainOfficerId'' \<noteq> uid u"
  show ut: "updateCase_try cid data u store fs = (Inl (App (forbidden m_no_modify None)), store)"
    using assms m by (simp add: updateCase_try_def Let_def)
  show dt: "deleteCase_try cid u store fs = (Inl (App (forbidden m_no_delete None)), store)"
    using assms m by (simp add: deleteCase_try_def Let_def)
  show "\<exists>e. updateCase cid data u store fs = (Inl e, store)"
    by (simp add: updateCase_def ut catchCaseError_def)
  show "\<exists>e. deleteCase cid u store fs = (Inl e, store)"
    by (simp add: deleteCase_def dt catchCaseError_def)
next
  assume m: "jsget row ''mainOfficerId'' \<noteq> uid u" and q: "poolQuery fs1 = Inr fs2"
  show "getCaseDetail cid u store fs
          = (if takesPart store cid u then getCaseDetail_authorized cid row store fs2
             else Inl (App (forbidden m_no_view None)))"
    using assms m q by (simp add: getCaseDetail_def takesPart_def)
qed

theorem ownership_gate_witness:
  "getCaseDetail 1 ex_user9 ex_db [] = Inl (App (forbidden m_no_view None))
   \<and> updateCase_try 1 ex_close ex_user9 ex_db []
       = (Inl (App (forbidden m_no_modify None)), ex_db)
   \<and> getCaseDetail 1 ex_user7 ex_db [] = getCaseDetail_authorized 1 ex_row1 ex_db []"
proof -
  have a9: "\<not> hasPermission ex_user9 ''case:view_all''"
    and a7: "\<not> hasPermission ex_user7 ''case:view_all''"
    by (simp_all add: hasPermission_def ex_user9_def ex_user7_def)
  have b: "map_of (case_records ex_db) 1 = Some ex_row1" by (simp add: ex_db_def)
  have c: "poolQuery [] = Inr []" by (simp add: poolQuery_def)
  have m9: "jsget ex_row1 ''mainOfficerId'' \<noteq> uid ex_user9"
    and m7: "jsget ex_row1 ''mainOfficerId'' = uid ex_user7"
    by (simp_all add: ex_row1_main ex_user9_def ex_user7_def)
  have p9: "\<not> takesPart ex_db 1 ex_user9"
    by (simp add: takesPart_def ex_db_def ex_user9_def sql_eq_def sqlval_def)
  from ownership_gate [OF a9 b c, where data = ex_close and ?fs2.0 = "[]"] m9 c p9
  have "getCaseDetail 1 ex_user9 ex_db [] = Inl (App (forbidden m_no_view None))"
    and "updateCase_try 1 ex_close ex_user9 ex_db []
           = (Inl (App (forbidden m_no_modify None)), ex_db)"
    by simp_all
  moreover from ownership_gate [OF a7 b c, where data = ex_close and ?fs2.0 = "[]"] m7
  have "getCaseDetail 1 ex_user7 ex_db [] = getCaseDetail_authorized 1 ex_row1 ex_db []"
    by simp
  ultimately show ?thesis by simp
qed

text \<open>
  The claim as it was stated fails in two places. Officer 8 takes part in case 1 without
  being its main officer and has no right to see all cases: the detail is given to them.
  Officer 9 is a stranger to the case: their update is refused, and leaves the service
  as a storage error with status 500, not as forbidden.
\<close>

theorem ownership_gate_counterexample:
  "getCaseDetail 1 ex_user8 ex_db []
     = Inr \<lparr>d_case = ex_row1, d_officers = case_officers ex_db, d_persons = []\<rparr>
   \<and> jsget ex_row1 ''mainOfficerId'' \<noteq> uid ex_user8
   \<and> \<not> hasPermission ex_user8 ''case:view_all''
   \<and> updateCase 1 ex_close ex_user9 ex_db []
     = (Inl (App \<lparr>errorCode = DB_ERROR, message = ''AppError: '' @ m_no_modify,
                   status = 500, details = None, isOperational = True\<rparr>), ex_db)"
proof (intro conjI)
  show "getCaseDetail 1 ex_user8 ex_db []
     = Inr \<lparr>d_case = ex_row1, d_officers = case_officers ex_db, d_persons = []\<rparr>"
    by (simp add: getCaseDetail_def getCaseDetail_authorized_def poolQuery_def ex_db_def
          ex_row1_main ex_user8_def hasPermission_def sql_eq_def sqlval_def)
  show "jsget ex_row1 ''mainOfficerId'' \<noteq> uid ex_user8"
    by (simp add: ex_row1_main ex_user8_def)
  show "\<not> hasPermission ex_user8 ''case:view_all''"
    by (simp add: hasPermission_def ex_user8_def)
  have n: "m_no_modify \<noteq> []" by (simp add: m_no_modify_def)
  show "updateCase 1 ex_close ex_user9 ex_db []
     = (Inl (App \<lparr>errorCode = DB_ERROR, message = ''AppError: '' @ m_no_modify,
                   status = 500, details = None, isOperational = True\<rparr>), ex_db)"
    by (simp add: updateCase_def updateCase_try_def poolQuery_def ex_db_def ex_row1_main
          ex_user9_def hasPermission_def catchCaseError_def handleCaseDbError_def
          forbidden_def dbError_def mkAppError_def errorToString_def n)
qed

section \<open>Properties of the boundary handler\<close>

lemma m_internal_nonempty: "m_internal \<noteq> []"
  by (simp add: m_internal_def)

text \<open>
  Claim C9. An error that reaches the boundary unclassified (not an application error,
  not a Joi error, not a token error) is answered with status 500, code INTERNAL_ERROR
  and the fixed generic message, without details; the answer is the same whatever the
  message, stack, code or SQL message of the error, and the error itself goes to the log.
  Outside production the body also carries the stack recorded for the generic error that
  the handler builds, not the one of the error it received.
\<close>

theorem errorHandler_unclassified_generic:
  assumes "unclassified err"
  shows "errorHandler isProduction errStack newStack err =
           \<lparr>r_status = 500,
            r_body = \<lparr>success = False, p_errorCode = INTERNAL_ERROR, p_message = m_internal,
                      p_details = None,
                      p_stack = (if isProduction then None else Some newStack)\<rparr>,
            r_logged = [err]\<rparr>"
proof (cases err)
  case (App e)
  with assms show ?thesis by (simp add: unclassified_def)
next
  case (Raw r)
  with assms have "\<not> isJoi r" "rname r \<noteq> ''JsonWebTokenError''" "rname r \<noteq> ''TokenExpiredError''"
    by (simp_all add: unclassified_def)
  with Raw show ?thesis
    by (simp add: errorHandler_def internalError_def mkAppError_def m_internal_nonempty)
qed

theorem errorHandler_unclassified_generic_witness:
  "unclassified (Raw \<lparr>rname = ''Error'', rmessage = ''connect ECONNREFUSED 127.0.0.1:3306'',
                      rstack = ''Error: connect ECONNREFUSED at TCPConnectWrap'',
                      rcode = Some ''ECONNREFUSED'', sqlMessage = None, isJoi = False,
                      joiDetails = None\<rparr>)
   \<and> r_body (errorHandler True [] ''at errorHandler''
        (Raw \<lparr>rname = ''Error'', rmessage = ''connect ECONNREFUSED 127.0.0.1:3306'',
              rstack = ''Error: connect ECONNREFUSED at TCPConnectWrap'',
              rcode = Some ''ECONNREFUSED'', sqlMessage = None, isJoi = False,
              joiDetails = None\<rparr>))
     = \<lparr>success = False, p_errorCode = INTERNAL_ERROR, p_message = m_internal,
        p_details = None, p_stack = None\<rparr>"
proof -
  let ?e = "Raw \<lparr>rname = ''Error'', rmessage = ''connect ECONNREFUSED 127.0.0.1:3306'',
                  rstack = ''Error: connect ECONNREFUSED at TCPConnectWrap'',
                  rcode = Some ''ECONNREFUSED'', sqlMessage = None, isJoi = False,
                  joiDetails = None\<rparr>"
  have u: "unclassified ?e" by (simp add: unclassified_def)
  from errorHandler_unclassified_generic [OF u, of True "[]" "''at errorHandler''"] u
  show ?thesis by simp
qed

section \<open>Properties of login\<close>

lemma permCodesOf_Nil: "permCodesOf store [] = []"
  by (simp add: permCodesOf_def)

lemma loadRolesAndPermissions_quiet:
  assumes "set fs \<subseteq> {None}"
  shows "\<exists>fs'. loadRolesAndPermissions store oid fs =
           Inr (\<lparr>x_roleIds = map role_id (roleRowsOf store oid),
                 x_roles = map role_code (roleRowsOf store oid),
                 x_roleNames = map role_name (roleRowsOf store oid),
                 x_permissions = permCodesOf store (map role_id (roleRowsOf store oid))\<rparr>,
                fs')"
proof -
  from poolQuery_quiet [OF assms] obtain fs1
    where q1: "poolQuery fs = Inr fs1" and s1: "set fs1 \<subseteq> {None}" by blast
  from poolQuery_quiet [OF s1] obtain fs2 where q2: "poolQuery fs1 = Inr fs2" by blast
  show ?thesis
    by (cases "roleRowsOf store oid = []")
       (simp_all add: loadRolesAndPermissions_def q1 q2 Let_def permCodesOf_Nil)
qed

text \<open>
  Claim C10. Login looks at the stored status only. When the officer with the given badge
  number exists, the password matches and no storage call is rejected, login fails as
  locked exactly when the status is LOCKED; for any other status it returns the user with
  their roles and permissions and the token signed for them, whatever the value of
  \<open>is_active\<close>.
\<close>

theorem login_only_locked_blocks:
  assumes "findOfficerByBadgeNo store badgeNo = Some officer"
    and "compare password (case o_password_hash officer of None \<Rightarrow> [] | Some h \<Rightarrow> h)"
    and "set fs \<subseteq> {None}"
    and "user = mapOfficerToUser officer
           \<lparr>x_roleIds = map role_id (roleRowsOf store (o_id officer)),
            x_roles = map role_code (roleRowsOf store (o_id officer)),
            x_roleNames = map role_name (roleRowsOf store (o_id officer)),
            x_permissions = permCodesOf store (map role_id (roleRowsOf store (o_id officer)))\<rparr>"
  shows "(o_status officer = Str ''LOCKED'' \<longrightarrow>
            login compare signToken badgeNo password store fs
              = Inl (App (unauthorized m_locked None)))
       \<and> (o_status officer \<noteq> Str ''LOCKED'' \<longrightarrow>
            login compare signToken badgeNo password store fs
              = Inr (signToken (tokenPayloadOf user), user))"
proof -
  from poolQuery_quiet [OF assms(3)] obtain fs1
    where q1: "poolQuery fs = Inr fs1" and s1: "set fs1 \<subseteq> {None}" by blast
  from loadRolesAndPermissions_quiet [OF s1, of store "o_id officer"] obtain fs2
    where l: "loadRolesAndPermissions store (o_id officer) fs1 =
           Inr (\<lparr>x_roleIds = map role_id (roleRowsOf store (o_id officer)),
                 x_roles = map role_code (roleRowsOf store (o_id officer)),
                 x_roleNames = map role_name (roleRowsOf store (o_id officer)),
                 x_permissions = permCodesOf store (map role_id (roleRowsOf store (o_id officer)))\<rparr>,
                fs2)" by blast
  show ?thesis
    using assms(1,2) by (simp add: login_def q1 l Let_def assms(4))
qed

theorem login_only_locked_blocks_witness:
  "login (\<lambda>p h. h = ''hash:'' @ p) t_badgeNo ''A001'' ''pw''
       \<lparr>police_officers =
          [\<lparr>o_id = 7, o_name = ''Li'', o_badge_no = ''A001'', o_phone = Null,
            o_status = Str ''INACTIVE'', o_is_active = Num 0,
            o_password_hash = Some ''hash:pw''\<rparr>],
        roles = [], officer_roles = [], permissions = [], role_permissions = []\<rparr> []
     = Inr (''A001'',
            \<lparr>u_id = 7, u_name = ''Li'', u_badgeNo = ''A001'', u_phone = Null,
             u_status = Str ''INACTIVE'', u_isActive = False, u_roles = [], u_roleNames = [],
             u_permissions = []\<rparr>)"
proof -
  let ?o = "\<lparr>o_id = 7, o_name = ''Li'', o_badge_no = ''A001'', o_phone = Null,
             o_status = Str ''INACTIVE'', o_is_active = Num 0,
             o_password_hash = Some ''hash:pw''\<rparr>"
  let ?s = "\<lparr>police_officers = [?o], roles = [], officer_roles = [], permissions = [],
             role_permissions = []\<rparr>"
  let ?u = "\<lparr>u_id = 7, u_name = ''Li'', u_badgeNo = ''A001'', u_phone = Null,
             u_status = Str ''INACTIVE'', u_isActive = False, u_roles = [], u_roleNames = [],
             u_permissions = []\<rparr>"
  have "o_status ?o \<noteq> Str ''LOCKED'' \<longrightarrow>
          login (\<lambda>p h. h = ''hash:'' @ p) t_badgeNo ''A001'' ''pw'' ?s []
             = Inr (t_badgeNo (tokenPayloadOf ?u), ?u)"
    using login_only_locked_blocks
            [where compare = "\<lambda>p h. h = ''hash:'' @ p" and signToken = t_badgeNo
               and officer = "?o" and store = "?s" and badgeNo = "''A001''"
               and password = "''pw''" and fs = "[]" and user = "?u"]
    by (simp add: findOfficerByBadgeNo_def mapOfficerToUser_def roleRowsOf_def permCodesOf_def)
  then show ?thesis by (simp add: tokenPayloadOf_def)
qed

end
